theory Spec2Isabelle
  imports Main "HOL-Library.AList"
begin

section \<open>JavaScript values, option objects and errors\<close>

text \<open>
  The orchestrator of \<^verbatim>\<open>src/rollup/index.ts\<close> works on untyped configuration objects.
  A value is modelled by \<open>jsval\<close>; an object is the list of its own properties in
  property order (a key is looked up with \<open>map_of\<close>, so the first entry of a key is the
  one that counts). \<open>JFun\<close> stands for a callable or any other opaque host object.
\<close>

datatype jsval =
    JUndefined
  | JNull
  | JBool bool
  | JNum int
  | JStr string
  | JFun nat
  | JArr "jsval list"
  | JObj "(string \<times> jsval) list"

type_synonym obj = "(string \<times> jsval) list"

text \<open>\<open>if (v)\<close>: the truthiness of a value.\<close>

fun truthy :: "jsval \<Rightarrow> bool" where
  "truthy JUndefined = False"
| "truthy JNull = False"
| "truthy (JBool b) = b"
| "truthy (JNum n) = (n \<noteq> 0)"
| "truthy (JStr s) = (s \<noteq> [])"
| "truthy (JFun f) = True"
| "truthy (JArr xs) = True"
| "truthy (JObj al) = True"

text \<open>\<open>typeof v === 'string'\<close>, \<open>typeof v === 'object'\<close> and \<open>Array.isArray(v)\<close>.\<close>

fun typeof_string :: "jsval \<Rightarrow> bool" where
  "typeof_string (JStr s) = True"
| "typeof_string v = False"

fun typeof_object :: "jsval \<Rightarrow> bool" where
  "typeof_object JNull = True"
| "typeof_object (JArr xs) = True"
| "typeof_object (JObj al) = True"
| "typeof_object v = False"

fun isArray :: "jsval \<Rightarrow> bool" where
  "isArray (JArr xs) = True"
| "isArray v = False"

text \<open>
  \<open>v.k\<close> for the option names that \<^verbatim>\<open>index.ts\<close> reads (\<open>output\<close>, \<open>format\<close>, \<open>file\<close>,
  \<open>dir\<close>, \<open>sourcemapFile\<close>, ...): an own property of an object, and \<open>undefined\<close> on
  every other value the code reads them from (none of these names is an index or a
  built-in property of an array, a string, a number, a boolean or a function).
\<close>

fun getprop :: "jsval \<Rightarrow> string \<Rightarrow> jsval" where
  "getprop (JObj al) k = (case map_of al k of Some v \<Rightarrow> v | None \<Rightarrow> JUndefined)"
| "getprop v k = JUndefined"

text \<open>Decimal property keys of array and string indices.\<close>

definition digit_char :: "nat \<Rightarrow> char" where
  "digit_char d = char_of (48 + d)"

fun string_of_nat :: "nat \<Rightarrow> string" where
  "string_of_nat n =
     (if n < 10 then [digit_char n] else string_of_nat (n div 10) @ [digit_char (n mod 10)])"

declare string_of_nat.simps [simp del]

text \<open>
  The own enumerable properties that an object spread \<open>{...v}\<close> copies: the entries of an
  object, the indexed elements of an array, the indexed characters of a string, and
  nothing for \<open>undefined\<close>, \<open>null\<close>, booleans, numbers and functions.
\<close>

fun own_entries :: "jsval \<Rightarrow> obj" where
  "own_entries (JObj al) = AList.clearjunk al"
| "own_entries (JArr xs) = zip (map string_of_nat [0..<length xs]) xs"
| "own_entries (JStr s) = zip (map string_of_nat [0..<length s]) (map (\<lambda>c. JStr [c]) s)"
| "own_entries v = []"

text \<open>
  \<open>{...target, ...v}\<close>: each property of \<open>v\<close> is assigned in turn; an existing key keeps
  its place and takes the new value, a new key is appended.
\<close>

definition spread :: "obj \<Rightarrow> jsval \<Rightarrow> obj" where
  "spread target v = fold (\<lambda>(k, x). AList.update k x) (own_entries v) target"

text \<open>
  An error object: \<open>JSError code message\<close> is an \<open>Error\<close> with an optional \<open>code\<close>
  property; \<open>TypeError\<close> is what the runtime raises when a property of \<open>undefined\<close> or
  \<open>null\<close> is read. Collaborators and extensions raise values of the same type, and an
  error is rethrown unchanged when the very same value is raised again.
\<close>

datatype jserror =
    JSError (err_code: "string option") (err_message: string)
  | TypeError string

text \<open>
  Modelled from the spec: \<open>error\<close> (\<^verbatim>\<open>utils/error\<close>, not under \<^verbatim>\<open>src/\<close>) raises an error that
  carries the given machine code and human message.
\<close>

definition error :: "string option \<Rightarrow> string \<Rightarrow> jserror + 'a" where
  "error c m = Inl (JSError c m)"

section \<open>Input options\<close>

text \<open>
  The \<open>plugins\<close> option as the caller may pass it: an array whose entries are extensions
  or falsy values, a single extension, or nothing.
\<close>

datatype 'p plugins_option =
    PluginsArray "'p option list"
  | PluginsSingle 'p
  | PluginsFalsy

text \<open>
  The fields of the input options that \<^verbatim>\<open>index.ts\<close> reads. \<open>'p\<close> is the type of
  extensions (plugins).
\<close>

record 'p input_options =
  input :: jsval
  plugins :: "'p plugins_option"
  inlineDynamicImports :: jsval
  manualChunks :: jsval
  optimizeChunks :: jsval
  preserveModules :: jsval
  output_opt :: jsval
  cache :: jsval
  chunkGroupingSize :: jsval
  perf :: jsval

section \<open>Output option normalisation\<close>

text \<open>The deprecation message contains an en dash (three bytes in UTF-8).\<close>

definition es6_message :: string where
  "es6_message =
     ''The '' @ [CHR 0x60] @ ''es6'' @ [CHR 0x60] @ '' output format is deprecated ''
       @ [CHR 0xE2, CHR 0x80, CHR 0x93] @ '' use '' @ [CHR 0x60] @ ''esm'' @ [CHR 0x60]
       @ '' instead''"

definition format_message :: string where
  "format_message =
     ''You must specify output.format, which can be one of '' @ [CHR 0x27] @ ''amd''
       @ [CHR 0x27] @ '', '' @ [CHR 0x27] @ ''cjs'' @ [CHR 0x27] @ '', '' @ [CHR 0x27]
       @ ''system'' @ [CHR 0x27] @ '', '' @ [CHR 0x27] @ ''esm'' @ [CHR 0x27] @ '', ''
       @ [CHR 0x27] @ ''iife'' @ [CHR 0x27] @ '' or '' @ [CHR 0x27] @ ''umd'' @ [CHR 0x27]"

definition checkOutputOptions :: "obj \<Rightarrow> jserror + unit" where
  "checkOutputOptions options =
     (if getprop (JObj options) ''format'' = JStr ''es6'' then error None es6_message
      else if \<not> truthy (getprop (JObj options) ''format'') then error None format_message
      else Inr ())"

text \<open>
  \<open>{ output: { ...rawOutputOptions, ...rawOutputOptions.output, ...inputOptions.output } }\<close>
\<close>

definition consolidatedOutputOptions :: "'p input_options \<Rightarrow> jsval \<Rightarrow> jsval" where
  "consolidatedOutputOptions inputOptions rawOutputOptions =
     JObj [(''output'',
        JObj (spread (spread (spread [] rawOutputOptions) (getprop rawOutputOptions ''output''))
                (output_opt inputOptions)))]"

text \<open>
  \<open>mergeOptions\<close> (\<^verbatim>\<open>utils/mergeOptions\<close>) is not under \<^verbatim>\<open>src/\<close>; the call with
  \<open>deprecateConfig: { output: true }\<close> is a parameter that maps the consolidated
  configuration to \<open>optionError\<close> and the list \<open>outputOptions\<close>.
\<close>

type_synonym merge_output = "jsval \<Rightarrow> string option \<times> obj list"

definition normalizeOutputOptions ::
  "merge_output \<Rightarrow> 'p input_options \<Rightarrow> jsval \<Rightarrow> bool \<Rightarrow> jserror + obj" where
  "normalizeOutputOptions mergeOptions inputOptions rawOutputOptions hasMultipleChunks =
     (if \<not> truthy rawOutputOptions then Inl (JSError None ''You must supply an options object'')
      else
        (case mergeOptions (consolidatedOutputOptions inputOptions rawOutputOptions) of
          (optionError, outputOptionsList) \<Rightarrow>
            (if optionError \<noteq> None \<and> optionError \<noteq> Some []
             then Inl (JSError None (the optionError))
             else
               (case outputOptionsList of
                 [] \<Rightarrow> Inl (TypeError ''Cannot read property format of undefined'')
               | outputOptions # rest \<Rightarrow>
                   (case checkOutputOptions outputOptions of
                     Inl e \<Rightarrow> Inl e
                   | Inr u \<Rightarrow>
                       (let file = getprop (JObj outputOptions) ''file'';
                            dir = getprop (JObj outputOptions) ''dir'';
                            format = getprop (JObj outputOptions) ''format''
                        in
                          if typeof_string file \<and> typeof_string dir then
                            error (Some ''INVALID_OPTION'')
                              ''You must set either output.file for a single-file build or output.dir when generating multiple chunks.''
                          else if typeof_string file \<and> truthy (preserveModules inputOptions) then
                            error (Some ''INVALID_OPTION'')
                              ''You must set output.dir instead of output.file when using the preserveModules option.''
                          else if typeof_string file \<and> typeof_object (input inputOptions)
                                  \<and> \<not> isArray (input inputOptions) then
                            error (Some ''INVALID_OPTION'')
                              ''You must set output.dir instead of output.file when providing named inputs.''
                          else if hasMultipleChunks
                                  \<and> (format = JStr ''umd'' \<or> format = JStr ''iife'') then
                            error (Some ''INVALID_OPTION'')
                              ''UMD and IIFE output formats are not supported for code-splitting builds.''
                          else if hasMultipleChunks \<and> typeof_string file then
                            error (Some ''INVALID_OPTION'')
                              ''You must set output.dir instead of output.file when generating multiple chunks.''
                          else Inr outputOptions))))))"


section \<open>Chunks, bundles, collaborators and state\<close>

text \<open>
  A chunk is owned by the graph; the orchestrator reads whether it is an entry facade and
  the id of its entry module, and assigns its \<open>id\<close> and export mode. \<open>chunk_ref\<close> tells
  the collaborators which chunk they are asked about.
\<close>

record chunk =
  chunk_id :: string
  isEntryModuleFacade :: bool
  entryModule :: "string option"
  exportMode :: string
  chunk_ref :: nat

record sourcemap =
  toUrl :: string
  toString :: string

record rendered =
  rendered_code :: string
  rendered_map :: "sourcemap option"

record output_chunk =
  fileName :: string
  isEntry :: bool
  chunk_imports :: "string list"
  chunk_exports :: "string list"
  modules :: "string list"
  code :: "string option"
  chunk_map :: "sourcemap option"

record output_asset =
  asset_fileName :: string
  source :: string

datatype output_file = OutputChunk output_chunk | OutputAsset output_asset

type_synonym output_bundle = "(string \<times> output_file) list"

record asset =
  asset_name :: string
  asset_source :: "string option"
  finalised_fileName :: "string option"

record addons =
  addons_banner :: string
  addons_footer :: string
  addons_intro :: string
  addons_outro :: string

datatype hook_args =
    NoArgs
  | ErrorArg jserror
  | OngenerateArgs obj output_chunk
  | GenerateBundleArgs obj output_bundle bool
  | OnwriteArgs jsval output_file

datatype event =
    HookParallel string hook_args
  | HookSeq string hook_args
  | OptimizeChunks bool
  | WriteFile string "string option"
  | Warn string string

record ('w, 'p) env =
  mergeOptions_input :: "'p input_options \<Rightarrow> 'p input_options \<times> string option"
  mergeOptions_output :: merge_output
  onwarn :: "'p input_options \<Rightarrow> string \<Rightarrow> string \<Rightarrow> 'w \<Rightarrow> (jserror + unit) \<times> 'w"
  plugin_options :: "'p \<Rightarrow> ('p input_options \<Rightarrow> jserror + 'p input_options option) option"
  commondir :: "string list \<Rightarrow> string"
  basename :: "jsval \<Rightarrow> string"
  dirname :: "jsval \<Rightarrow> jsval"
  resolve :: "jsval \<Rightarrow> string \<Rightarrow> string"
  newGraph :: "'p input_options \<Rightarrow> nat option \<Rightarrow> 'w \<Rightarrow> (jserror + unit) \<times> 'w"
  hookParallel :: "string \<Rightarrow> hook_args \<Rightarrow> 'w \<Rightarrow> (jserror + unit) \<times> 'w"
  hookSeq_generateBundle :: "obj \<Rightarrow> output_bundle \<Rightarrow> bool \<Rightarrow> asset list \<Rightarrow> 'w \<Rightarrow> (jserror + output_bundle \<times> asset list) \<times> 'w"
  hookSeq_onwrite :: "jsval \<Rightarrow> output_file \<Rightarrow> 'w \<Rightarrow> (jserror + unit) \<times> 'w"
  graph_build :: "jsval \<Rightarrow> jsval \<Rightarrow> jsval \<Rightarrow> jsval \<Rightarrow> 'w \<Rightarrow> (jserror + chunk list) \<times> 'w"
  getCache :: "'w \<Rightarrow> jsval"
  watchFiles :: "'w \<Rightarrow> string list"
  finaliseAssets :: "jsval \<Rightarrow> 'w \<Rightarrow> (jserror + output_bundle) \<times> 'w"
  assetsById :: "'w \<Rightarrow> asset list"
  finaliseAsset :: "asset \<Rightarrow> output_bundle \<Rightarrow> jsval \<Rightarrow> jserror + output_bundle"
  createAddons :: "obj \<Rightarrow> 'w \<Rightarrow> (jserror + addons) \<times> 'w"
  generateInternalExports :: "chunk \<Rightarrow> obj \<Rightarrow> 'w \<Rightarrow> (jserror + unit) \<times> 'w"
  getExportMode :: "chunk \<Rightarrow> obj \<Rightarrow> 'w \<Rightarrow> (jserror + string) \<times> 'w"
  preRender :: "chunk \<Rightarrow> obj \<Rightarrow> string \<Rightarrow> 'w \<Rightarrow> (jserror + unit) \<times> 'w"
  run_optimizeChunks :: "chunk list \<Rightarrow> obj \<Rightarrow> jsval \<Rightarrow> string \<Rightarrow> 'w \<Rightarrow> (jserror + chunk list) \<times> 'w"
  generateIdPreserveModules :: "chunk \<Rightarrow> string \<Rightarrow> 'w \<Rightarrow> (jserror + string) \<times> 'w"
  generateId :: "chunk \<Rightarrow> jsval \<Rightarrow> string \<Rightarrow> addons \<Rightarrow> obj \<Rightarrow> string set \<Rightarrow> 'w \<Rightarrow> (jserror + string) \<times> 'w"
  getImportIds :: "chunk \<Rightarrow> 'w \<Rightarrow> string list"
  getExportNames :: "chunk \<Rightarrow> 'w \<Rightarrow> string list"
  renderedModules :: "chunk \<Rightarrow> 'w \<Rightarrow> string list"
  render :: "chunk \<Rightarrow> obj \<Rightarrow> addons \<Rightarrow> output_chunk \<Rightarrow> 'w \<Rightarrow> (jserror + rendered) \<times> 'w"
  writeFile :: "string \<Rightarrow> string option \<Rightarrow> 'w \<Rightarrow> (jserror + unit) \<times> 'w"

record 'w state =
  world :: 'w
  trace :: "event list"
  curWatcher :: "nat option"
  chunks :: "chunk list"
  optimized :: bool


section \<open>Promises\<close>

text \<open>
  A call that returns a promise either throws before any promise is returned, or returns
  a promise that rejects, or one that resolves.
\<close>

datatype 'a outcome = Thrown jserror | Rejected jserror | Resolved 'a

text \<open>
  A promise chain is a computation over the state: \<open>Inl e\<close> is a rejection (a throw inside
  a callback is one too), \<open>Inr a\<close> a resolution. The combinators are \<open>p.then(f)\<close>,
  \<open>p.then(f, g)\<close> and \<open>p.catch(g)\<close>.
\<close>

type_synonym ('a, 's) promise = "'s \<Rightarrow> (jserror + 'a) \<times> 's"

definition resolved :: "'a \<Rightarrow> ('a, 's) promise" where
  "resolved a s = (Inr a, s)"

definition rejected :: "jserror \<Rightarrow> ('a, 's) promise" where
  "rejected e s = (Inl e, s)"

definition then_do :: "('a, 's) promise \<Rightarrow> ('a \<Rightarrow> ('b, 's) promise) \<Rightarrow> ('b, 's) promise" where
  "then_do p f s = (case p s of (Inl e, s1) \<Rightarrow> (Inl e, s1) | (Inr a, s1) \<Rightarrow> f a s1)"

definition then_else ::
  "('a, 's) promise \<Rightarrow> ('a \<Rightarrow> ('b, 's) promise) \<Rightarrow> (jserror \<Rightarrow> ('b, 's) promise)
     \<Rightarrow> ('b, 's) promise" where
  "then_else p f g s = (case p s of (Inl e, s1) \<Rightarrow> g e s1 | (Inr a, s1) \<Rightarrow> f a s1)"

definition catch_do :: "('a, 's) promise \<Rightarrow> (jserror \<Rightarrow> ('a, 's) promise) \<Rightarrow> ('a, 's) promise" where
  "catch_do p g s = (case p s of (Inl e, s1) \<Rightarrow> g e s1 | (Inr a, s1) \<Rightarrow> (Inr a, s1))"

definition settle :: "('a, 's) promise \<Rightarrow> 's \<Rightarrow> 'a outcome \<times> 's" where
  "settle p s = (case p s of (Inl e, s1) \<Rightarrow> (Rejected e, s1) | (Inr a, s1) \<Rightarrow> (Resolved a, s1))"

text \<open>A collaborator call acts on the world; the dispatches below are recorded in the trace.\<close>

definition in_world :: "('w \<Rightarrow> (jserror + 'a) \<times> 'w) \<Rightarrow> ('a, 'w state) promise" where
  "in_world f s = (case f (world s) of (r, w) \<Rightarrow> (r, s\<lparr>world := w\<rparr>))"

definition record_event :: "event \<Rightarrow> 'w state \<Rightarrow> 'w state" where
  "record_event ev s = s\<lparr>trace := trace s @ [ev]\<rparr>"

definition call_hookParallel :: "('w, 'p) env \<Rightarrow> string \<Rightarrow> hook_args \<Rightarrow> (unit, 'w state) promise" where
  "call_hookParallel env name args s =
     in_world (hookParallel env name args) (record_event (HookParallel name args) s)"

definition call_writeFile :: "('w, 'p) env \<Rightarrow> string \<Rightarrow> string option \<Rightarrow> (unit, 'w state) promise" where
  "call_writeFile env filename data s =
     in_world (writeFile env filename data) (record_event (WriteFile filename data) s)"

definition call_onwarn ::
  "('w, 'p) env \<Rightarrow> 'p input_options \<Rightarrow> string \<Rightarrow> string \<Rightarrow> (unit, 'w state) promise" where
  "call_onwarn env inputOptions msg c s =
     in_world (onwarn env inputOptions msg c) (record_event (Warn msg c) s)"

section \<open>Input option normalisation\<close>

text \<open>
  \<open>Object.keys(v)\<close>: a \<open>TypeError\<close> on \<open>undefined\<close> and \<open>null\<close>, the own keys otherwise.
\<close>

definition object_keys :: "jsval \<Rightarrow> jserror + string list" where
  "object_keys v =
     (if v = JUndefined \<or> v = JNull
      then Inl (TypeError ''Cannot convert undefined or null to object'')
      else Inr (map fst (own_entries v)))"

fun array_length :: "jsval \<Rightarrow> nat" where
  "array_length (JArr xs) = length xs"
| "array_length v = 0"

text \<open>
  \<open>(input instanceof Array && input.length > 1) ||
     (typeof input === 'object' && Object.keys(input).length > 1)\<close>
\<close>

definition multiple_inputs :: "jsval \<Rightarrow> jserror + bool" where
  "multiple_inputs inp =
     (if isArray inp \<and> array_length inp > 1 then Inr True
      else if typeof_object inp then
        (case object_keys inp of Inl e \<Rightarrow> Inl e | Inr ks \<Rightarrow> Inr (length ks > 1))
      else Inr False)"

text \<open>
  \<open>Array.isArray(plugins) ? plugins.filter(Boolean) : plugins ? [plugins] : []\<close>
\<close>

fun normalize_plugins :: "'p plugins_option \<Rightarrow> 'p list" where
  "normalize_plugins (PluginsArray ps) = List.map_filter (\<lambda>p. p) ps"
| "normalize_plugins (PluginsSingle p) = [p]"
| "normalize_plugins PluginsFalsy = []"

definition applyOptionHook ::
  "('w, 'p) env \<Rightarrow> 'p input_options \<Rightarrow> 'p \<Rightarrow> jserror + 'p input_options" where
  "applyOptionHook env inputOptions plugin =
     (case plugin_options env plugin of
        None \<Rightarrow> Inr inputOptions
      | Some hook \<Rightarrow>
          (case hook inputOptions of
             Inl e \<Rightarrow> Inl e
           | Inr None \<Rightarrow> Inr inputOptions
           | Inr (Some replaced) \<Rightarrow> Inr replaced))"

text \<open>\<open>plugins.reduce(applyOptionHook, inputOptions)\<close>; a hook that throws ends the reduction.\<close>

fun reduce_options ::
  "('w, 'p) env \<Rightarrow> 'p list \<Rightarrow> 'p input_options \<Rightarrow> jserror + 'p input_options" where
  "reduce_options env [] inputOptions = Inr inputOptions"
| "reduce_options env (plugin # ps) inputOptions =
     (case applyOptionHook env inputOptions plugin of
        Inl e \<Rightarrow> Inl e
      | Inr replaced \<Rightarrow> reduce_options env ps replaced)"

text \<open>Lines 72 to 111 of \<open>getInputOptions\<close>: the forbidden combinations.\<close>

definition checkInputOptions :: "'p input_options \<Rightarrow> jserror + 'p input_options" where
  "checkInputOptions inputOptions =
     (if truthy (inlineDynamicImports inputOptions) \<and> truthy (manualChunks inputOptions) then
        error (Some ''INVALID_OPTION'')
          ([CHR 0x22] @ ''manualChunks'' @ [CHR 0x22]
             @ '' option is not supported for inlineDynamicImports.'')
      else if truthy (inlineDynamicImports inputOptions) \<and> truthy (optimizeChunks inputOptions) then
        error (Some ''INVALID_OPTION'')
          ([CHR 0x22] @ ''optimizeChunks'' @ [CHR 0x22]
             @ '' option is not supported for inlineDynamicImports.'')
      else
        (case (if truthy (inlineDynamicImports inputOptions)
               then multiple_inputs (input inputOptions) else Inr False) of
           Inl e \<Rightarrow> Inl e
         | Inr multiple \<Rightarrow>
             if multiple then
               error (Some ''INVALID_OPTION'')
                 ''Multiple inputs are not supported for inlineDynamicImports.''
             else if truthy (preserveModules inputOptions)
                     \<and> truthy (inlineDynamicImports inputOptions) then
               error (Some ''INVALID_OPTION'')
                 ''preserveModules does not support the inlineDynamicImports option.''
             else if truthy (preserveModules inputOptions) \<and> truthy (manualChunks inputOptions) then
               error (Some ''INVALID_OPTION'')
                 ''preserveModules does not support the manualChunks option.''
             else if truthy (preserveModules inputOptions)
                     \<and> truthy (optimizeChunks inputOptions) then
               error (Some ''INVALID_OPTION'')
                 ''preserveModules does not support the optimizeChunks option.''
             else Inr inputOptions))"

text \<open>
  Lines 54 to 70 of \<open>getInputOptions\<close>: the options are merged, an unknown option is
  reported to \<open>onwarn\<close>, the extension list is normalised and every \<open>options\<close> hook is
  applied in turn.
\<close>

definition prepareInputOptions ::
  "('w, 'p) env \<Rightarrow> 'p input_options option \<Rightarrow> ('p input_options, 'w state) promise" where
  "prepareInputOptions env rawInputOptions s =
     (case rawInputOptions of
        None \<Rightarrow> (Inl (JSError None ''You must supply an options object to rollup''), s)
      | Some raw \<Rightarrow>
          (case mergeOptions_input env raw of
             (merged, optionError) \<Rightarrow>
               (case (if optionError \<noteq> None \<and> optionError \<noteq> Some []
                      then call_onwarn env merged (the optionError) ''UNKNOWN_OPTION'' s
                      else (Inr (), s)) of
                  (Inl e, s1) \<Rightarrow> (Inl e, s1)
                | (Inr u, s1) \<Rightarrow>
                    (let ps = normalize_plugins (plugins merged);
                         inputOptions = merged\<lparr>plugins := PluginsArray (map Some ps)\<rparr>
                     in (reduce_options env ps inputOptions, s1)))))"

definition getInputOptions ::
  "('w, 'p) env \<Rightarrow> 'p input_options option \<Rightarrow> ('p input_options, 'w state) promise" where
  "getInputOptions env rawInputOptions =
     then_do (prepareInputOptions env rawInputOptions)
       (\<lambda>inputOptions s. (checkInputOptions inputOptions, s))"

section \<open>The build\<close>

record 'p build_handle =
  b_cache :: jsval
  b_watchFiles :: "string list"
  b_getTimings :: bool
  b_inputOptions :: "'p input_options"

definition setWatcher :: "nat \<Rightarrow> 'w state \<Rightarrow> 'w state" where
  "setWatcher watcher s = s\<lparr>curWatcher := Some watcher\<rparr>"

definition rollup ::
  "('w, 'p) env \<Rightarrow> 'p input_options option \<Rightarrow> 'w state \<Rightarrow> 'p build_handle outcome \<times> 'w state" where
  "rollup env rawInputOptions s =
     (case getInputOptions env rawInputOptions s of
        (Inl err, s1) \<Rightarrow> (Rejected err, s1)
      | (Inr normalized, s1) \<Rightarrow>
          (case in_world (newGraph env normalized (curWatcher s1)) s1 of
             (Inl err, s2) \<Rightarrow> (Rejected err, s2)
           | (Inr u, s2) \<Rightarrow>
               (let inputOptions = normalized\<lparr>cache := JUndefined\<rparr> in
                settle
                  (then_do
                    (then_else
                      (then_do (call_hookParallel env ''buildStart'' NoArgs)
                        (\<lambda>u. in_world
                           (graph_build env (input inputOptions) (manualChunks inputOptions)
                              (inlineDynamicImports inputOptions) (preserveModules inputOptions))))
                      (\<lambda>cs. then_do (call_hookParallel env ''buildEnd'' NoArgs) (\<lambda>u. resolved cs))
                      (\<lambda>err. then_do (call_hookParallel env ''buildEnd'' (ErrorArg err))
                                (\<lambda>u. rejected err)))
                    (\<lambda>cs s3.
                       (Inr \<lparr> b_cache =
                                (if (case rawInputOptions of Some raw \<Rightarrow> cache raw | None \<Rightarrow> JUndefined)
                                      = JBool False
                                 then JUndefined else getCache env (world s3)),
                              b_watchFiles = watchFiles env (world s3),
                              b_getTimings = (perf inputOptions = JBool True),
                              b_inputOptions = inputOptions \<rparr>,
                        s3\<lparr>chunks := cs, optimized := False\<rparr>)))
                  (s2\<lparr>curWatcher := None\<rparr>))))"


section \<open>Generating a bundle\<close>

text \<open>\<open>a || b\<close> on option values.\<close>

definition or_default :: "jsval \<Rightarrow> jsval \<Rightarrow> jsval" where
  "or_default v d = (if truthy v then v else d)"

text \<open>
  A \<open>for\<close> loop over the chunk array. The body works on the chunk at the index and its
  result is written back, as the source mutates the chunk in place; an error leaves the
  loop.
\<close>

fun forEachChunk ::
  "(chunk \<Rightarrow> (chunk, 'w state) promise) \<Rightarrow> nat list \<Rightarrow> (unit, 'w state) promise" where
  "forEachChunk body [] s = (Inr (), s)"
| "forEachChunk body (i # rest) s =
     (case body (chunks s ! i) s of
        (Inl e, s1) \<Rightarrow> (Inl e, s1)
      | (Inr c, s1) \<Rightarrow> forEachChunk body rest (s1\<lparr>chunks := (chunks s1)[i := c]\<rparr>))"

text \<open>
  \<open>if (!inputOptions.preserveModules) chunk.generateInternalExports(outputOptions);
     if (chunk.isEntryModuleFacade) chunk.exportMode = getExportMode(chunk, outputOptions);\<close>
\<close>

definition prepareExports ::
  "('w, 'p) env \<Rightarrow> 'p input_options \<Rightarrow> obj \<Rightarrow> chunk \<Rightarrow> (chunk, 'w state) promise" where
  "prepareExports env inputOptions outputOptions chunk =
     then_do
       (if \<not> truthy (preserveModules inputOptions)
        then in_world (generateInternalExports env chunk outputOptions) else resolved ())
       (\<lambda>u. if isEntryModuleFacade chunk
             then then_do (in_world (getExportMode env chunk outputOptions))
                    (\<lambda>mode. resolved (chunk\<lparr>exportMode := mode\<rparr>))
             else resolved chunk)"

definition preRenderChunk ::
  "('w, 'p) env \<Rightarrow> obj \<Rightarrow> string \<Rightarrow> chunk \<Rightarrow> (chunk, 'w state) promise" where
  "preRenderChunk env outputOptions inputBase chunk =
     then_do (in_world (preRender env chunk outputOptions inputBase)) (\<lambda>u. resolved chunk)"

text \<open>
  \<open>if (!optimized && inputOptions.optimizeChunks) { optimizeChunks(...); optimized = true; }\<close>
  The call of the post-optimizer is recorded in the trace with its outcome (\<open>True\<close> when it
  returned).
\<close>

definition optimizeStep ::
  "('w, 'p) env \<Rightarrow> 'p input_options \<Rightarrow> obj \<Rightarrow> string \<Rightarrow> (unit, 'w state) promise" where
  "optimizeStep env inputOptions outputOptions inputBase s =
     (if \<not> optimized s \<and> truthy (optimizeChunks inputOptions) then
        (case in_world (run_optimizeChunks env (chunks s) outputOptions
                          (chunkGroupingSize inputOptions) inputBase) s of
           (Inl e, s1) \<Rightarrow> (Inl e, record_event (OptimizeChunks False) s1)
         | (Inr cs, s1) \<Rightarrow>
             (Inr (), (record_event (OptimizeChunks True) s1)\<lparr>chunks := cs, optimized := True\<rparr>))
      else (Inr (), s))"

text \<open>The naming loop, lines 193 to 214; \<open>usedIds\<close> is its local set.\<close>

fun nameChunks ::
  "('w, 'p) env \<Rightarrow> 'p input_options \<Rightarrow> obj \<Rightarrow> addons \<Rightarrow> string \<Rightarrow> nat list \<Rightarrow> string set
     \<Rightarrow> (unit, 'w state) promise" where
  "nameChunks env inputOptions outputOptions addons inputBase [] usedIds s = (Inr (), s)"
| "nameChunks env inputOptions outputOptions addons inputBase (i # rest) usedIds s =
     (let chunk = chunks s ! i in
      if truthy (getprop (JObj outputOptions) ''file'') then
        nameChunks env inputOptions outputOptions addons inputBase rest usedIds
          (s\<lparr>chunks := (chunks s)
                [i := chunk\<lparr>chunk_id := basename env (getprop (JObj outputOptions) ''file'')\<rparr>]\<rparr>)
      else if truthy (preserveModules inputOptions) then
        (case in_world (generateIdPreserveModules env chunk inputBase) s of
           (Inl e, s1) \<Rightarrow> (Inl e, s1)
         | (Inr newId, s1) \<Rightarrow>
             nameChunks env inputOptions outputOptions addons inputBase rest usedIds
               (s1\<lparr>chunks := (chunks s1)[i := chunk\<lparr>chunk_id := newId\<rparr>]\<rparr>))
      else
        (let pattern =
               (if isEntryModuleFacade chunk
                then or_default (getprop (JObj outputOptions) ''entryFileNames'') (JStr ''[name].js'')
                else or_default (getprop (JObj outputOptions) ''chunkFileNames'')
                       (JStr ''[name]-[hash].js''));
             patternName =
               (if isEntryModuleFacade chunk then ''output.entryFileNames''
                else ''output.chunkFileNames'')
         in case in_world (generateId env chunk pattern patternName addons outputOptions usedIds) s of
              (Inl e, s1) \<Rightarrow> (Inl e, s1)
            | (Inr newId, s1) \<Rightarrow>
                nameChunks env inputOptions outputOptions addons inputBase rest
                  (insert newId usedIds)
                  (s1\<lparr>chunks := (chunks s1)[i := chunk\<lparr>chunk_id := newId\<rparr>]\<rparr>)))"

text \<open>\<open>outputBundle[chunk.id] = { fileName: chunk.id, isEntry: ..., code: undefined, ... }\<close>\<close>

fun assignChunks :: "('w, 'p) env \<Rightarrow> 'w \<Rightarrow> chunk list \<Rightarrow> output_bundle \<Rightarrow> output_bundle" where
  "assignChunks env w [] outputBundle = outputBundle"
| "assignChunks env w (chunk # rest) outputBundle =
     assignChunks env w rest
       (AList.update (chunk_id chunk)
          (OutputChunk
             \<lparr> fileName = chunk_id chunk,
               isEntry = (entryModule chunk \<noteq> None),
               chunk_imports = getImportIds env chunk w,
               chunk_exports = getExportNames env chunk w,
               modules = renderedModules env chunk w,
               code = None,
               chunk_map = None \<rparr>)
          outputBundle)"

text \<open>
  \<open>Promise.all(chunks.map(chunk => chunk.render(...).then(rendered => ... 'ongenerate')))\<close>.
  Every render is started; the renders are taken in the order of the chunks, and the
  aggregate rejects with the error of the first chunk that fails.
\<close>

fun renderChunks ::
  "('w, 'p) env \<Rightarrow> obj \<Rightarrow> addons \<Rightarrow> chunk list \<Rightarrow> output_bundle
     \<Rightarrow> (output_bundle, 'w state) promise" where
  "renderChunks env outputOptions addons [] outputBundle s = (Inr outputBundle, s)"
| "renderChunks env outputOptions addons (chunk # rest) outputBundle s =
     (case map_of outputBundle (chunk_id chunk) of
        Some (OutputChunk outputChunk) \<Rightarrow>
          (case in_world (render env chunk outputOptions addons outputChunk) s of
             (Inl e, s1) \<Rightarrow>
               (case renderChunks env outputOptions addons rest outputBundle s1 of
                  (r, s2) \<Rightarrow> (Inl e, s2))
           | (Inr r, s1) \<Rightarrow>
               (let rendered_chunk =
                      outputChunk\<lparr>code := Some (rendered_code r), chunk_map := rendered_map r\<rparr>;
                    bundle1 = AList.update (chunk_id chunk) (OutputChunk rendered_chunk) outputBundle
                in case call_hookParallel env ''ongenerate''
                          (OngenerateArgs outputOptions rendered_chunk) s1 of
                     (Inl e, s2) \<Rightarrow>
                       (case renderChunks env outputOptions addons rest bundle1 s2 of
                          (r, s3) \<Rightarrow> (Inl e, s3))
                   | (Inr u, s2) \<Rightarrow> renderChunks env outputOptions addons rest bundle1 s2))
      | other \<Rightarrow> (Inl (TypeError ''Cannot set property code of undefined''), s))"

text \<open>The callback of \<open>createAddons(...).then\<close>, lines 178 to 245.\<close>

definition renderPhase ::
  "('w, 'p) env \<Rightarrow> 'p input_options \<Rightarrow> obj \<Rightarrow> string \<Rightarrow> output_bundle \<Rightarrow> addons
     \<Rightarrow> (output_bundle, 'w state) promise" where
  "renderPhase env inputOptions outputOptions inputBase outputBundle addons =
     then_do (\<lambda>s. forEachChunk (prepareExports env inputOptions outputOptions)
                    [0..<length (chunks s)] s)
       (\<lambda>u. then_do (\<lambda>s. forEachChunk (preRenderChunk env outputOptions inputBase)
                            [0..<length (chunks s)] s)
          (\<lambda>u. then_do (optimizeStep env inputOptions outputOptions inputBase)
             (\<lambda>u. then_do (\<lambda>s. nameChunks env inputOptions outputOptions addons inputBase
                                   [0..<length (chunks s)] {} s)
                (\<lambda>u s. renderChunks env outputOptions addons (chunks s)
                          (assignChunks env (world s) (chunks s) outputBundle) s))))"

text \<open>
  \<open>assets.forEach(asset => { if (asset.fileName === undefined) finaliseAsset(...) })\<close>
\<close>

fun finaliseOpenAssets ::
  "('w, 'p) env \<Rightarrow> jsval \<Rightarrow> asset list \<Rightarrow> output_bundle \<Rightarrow> jserror + output_bundle" where
  "finaliseOpenAssets env assetFileNames [] outputBundle = Inr outputBundle"
| "finaliseOpenAssets env assetFileNames (a # rest) outputBundle =
     (if finalised_fileName a = None then
        (case finaliseAsset env a outputBundle assetFileNames of
           Inl e \<Rightarrow> Inl e
         | Inr bundle1 \<Rightarrow> finaliseOpenAssets env assetFileNames rest bundle1)
      else finaliseOpenAssets env assetFileNames rest outputBundle)"

definition call_generateBundle ::
  "('w, 'p) env \<Rightarrow> obj \<Rightarrow> output_bundle \<Rightarrow> bool \<Rightarrow> asset list
     \<Rightarrow> (output_bundle \<times> asset list, 'w state) promise" where
  "call_generateBundle env outputOptions outputBundle isWrite assets s =
     in_world (hookSeq_generateBundle env outputOptions outputBundle isWrite assets)
       (record_event (HookSeq ''generateBundle''
          (GenerateBundleArgs outputOptions outputBundle isWrite)) s)"

text \<open>
  The promise chain of \<open>generate\<close>, lines 175 to 278. \<open>renderChain\<close> is the part in front
  of \<open>.catch\<close>.
\<close>

definition renderChain ::
  "('w, 'p) env \<Rightarrow> 'p input_options \<Rightarrow> obj \<Rightarrow> string \<Rightarrow> output_bundle
     \<Rightarrow> (output_bundle, 'w state) promise" where
  "renderChain env inputOptions outputOptions inputBase outputBundle =
     then_do
       (then_do (call_hookParallel env ''renderStart'' NoArgs)
          (\<lambda>u. in_world (createAddons env outputOptions)))
       (renderPhase env inputOptions outputOptions inputBase outputBundle)"

definition generateChain ::
  "('w, 'p) env \<Rightarrow> 'p input_options \<Rightarrow> obj \<Rightarrow> jsval \<Rightarrow> string \<Rightarrow> output_bundle \<Rightarrow> bool
     \<Rightarrow> (output_bundle, 'w state) promise" where
  "generateChain env inputOptions outputOptions assetFileNames inputBase outputBundle isWrite =
     then_do
       (catch_do
          (renderChain env inputOptions outputOptions inputBase outputBundle)
          (\<lambda>err. then_do (call_hookParallel env ''renderError'' (ErrorArg err))
                    (\<lambda>u. rejected err)))
       (\<lambda>bundle1.
          then_do
            (\<lambda>s. call_generateBundle env outputOptions bundle1 isWrite
                    (assetsById env (world s)) s)
            (\<lambda>(bundle2, assets) s.
               (finaliseOpenAssets env assetFileNames assets bundle2, s)))"

definition generate ::
  "('w, 'p) env \<Rightarrow> 'p input_options \<Rightarrow> jsval \<Rightarrow> bool \<Rightarrow> 'w state
     \<Rightarrow> output_bundle outcome \<times> 'w state" where
  "generate env inputOptions rawOutputOptions isWrite s =
     (case normalizeOutputOptions (mergeOptions_output env) inputOptions rawOutputOptions
             (length (chunks s) > 1) of
        Inl e \<Rightarrow> (Thrown e, s)
      | Inr outputOptions \<Rightarrow>
          (let assetFileNames =
                 or_default (getprop (JObj outputOptions) ''assetFileNames'')
                   (JStr ''assets/[name]-[hash][extname]'')
           in case in_world (finaliseAssets env assetFileNames) s of
                (Inl e, s1) \<Rightarrow> (Thrown e, s1)
              | (Inr outputBundle, s1) \<Rightarrow>
                  (let inputBase = commondir env (List.map_filter entryModule (chunks s1))
                   in settle
                        (generateChain env inputOptions outputOptions assetFileNames inputBase
                           outputBundle isWrite)
                        s1)))"

section \<open>The output list\<close>

datatype SortingFileType = ENTRY_CHUNK | SECONDARY_CHUNK | ASSET

fun sorting_value :: "SortingFileType \<Rightarrow> nat" where
  "sorting_value ENTRY_CHUNK = 0"
| "sorting_value SECONDARY_CHUNK = 1"
| "sorting_value ASSET = 2"

fun isAsset :: "output_file \<Rightarrow> bool" where
  "isAsset (OutputAsset a) = True"
| "isAsset (OutputChunk c) = False"

fun file_isEntry :: "output_file \<Rightarrow> bool" where
  "file_isEntry (OutputChunk c) = isEntry c"
| "file_isEntry (OutputAsset a) = False"

fun file_fileName :: "output_file \<Rightarrow> string" where
  "file_fileName (OutputChunk c) = fileName c"
| "file_fileName (OutputAsset a) = asset_fileName a"

definition getSortingFileType :: "output_file \<Rightarrow> SortingFileType" where
  "getSortingFileType file =
     (if isAsset file then ASSET
      else if file_isEntry file then ENTRY_CHUNK
      else SECONDARY_CHUNK)"

text \<open>The comparator handed to \<open>sort\<close>.\<close>

definition compareFiles :: "output_file \<Rightarrow> output_file \<Rightarrow> int" where
  "compareFiles outputFileA outputFileB =
     (let fileTypeA = getSortingFileType outputFileA;
          fileTypeB = getSortingFileType outputFileB
      in if fileTypeA = fileTypeB then 0
         else if sorting_value fileTypeA < sorting_value fileTypeB then - 1 else 1)"

text \<open>
  \<open>Array.prototype.sort(compare)\<close>, which ECMAScript specifies as a stable sort: an
  insertion sort that never moves an element past one that compares equal.
\<close>

fun insert_sorted :: "('a \<Rightarrow> 'a \<Rightarrow> int) \<Rightarrow> 'a \<Rightarrow> 'a list \<Rightarrow> 'a list" where
  "insert_sorted compare x [] = [x]"
| "insert_sorted compare x (y # ys) =
     (if compare x y \<le> 0 then x # y # ys else y # insert_sorted compare x ys)"

definition array_sort :: "('a \<Rightarrow> 'a \<Rightarrow> int) \<Rightarrow> 'a list \<Rightarrow> 'a list" where
  "array_sort compare xs = foldr (insert_sorted compare) xs []"

text \<open>
  \<open>Object.keys(outputBundle).map(fileName => outputBundle[fileName])\<close>: the files of the
  bundle in the order of its keys.
\<close>

definition bundle_keys :: "output_bundle \<Rightarrow> string list" where
  "bundle_keys outputBundle = map fst (AList.clearjunk outputBundle)"

definition bundle_files :: "output_bundle \<Rightarrow> output_file list" where
  "bundle_files outputBundle = List.map_filter (map_of outputBundle) (bundle_keys outputBundle)"

definition createOutput :: "output_bundle \<Rightarrow> output_file list" where
  "createOutput outputBundle = array_sort compareFiles (bundle_files outputBundle)"

section \<open>The build handle: generate and write\<close>

definition build_generate ::
  "('w, 'p) env \<Rightarrow> 'p build_handle \<Rightarrow> jsval \<Rightarrow> 'w state \<Rightarrow> output_file list outcome \<times> 'w state" where
  "build_generate env build rawOutputOptions s =
     (case generate env (b_inputOptions build) rawOutputOptions False s of
        (Thrown e, s1) \<Rightarrow> (Thrown e, s1)
      | (Rejected e, s1) \<Rightarrow> (Rejected e, s1)
      | (Resolved outputBundle, s1) \<Rightarrow> (Resolved (createOutput outputBundle), s1))"

text \<open>
  Modelled from the spec: the constant \<open>SOURCEMAPPING_URL\<close> (\<^verbatim>\<open>utils/sourceMappingURL\<close>, not
  under \<^verbatim>\<open>src/\<close>); the writer appends \<open>//# sourceMappingURL=\<close>.
\<close>

definition SOURCEMAPPING_URL :: string where
  "SOURCEMAPPING_URL = ''sourceMappingURL''"

definition call_onwrite ::
  "('w, 'p) env \<Rightarrow> jsval \<Rightarrow> output_file \<Rightarrow> (unit, 'w state) promise" where
  "call_onwrite env outputOptions outputFile s =
     in_world (hookSeq_onwrite env outputOptions outputFile)
       (record_event (HookSeq ''onwrite'' (OnwriteArgs outputOptions outputFile)) s)"

definition writeOutputFile ::
  "('w, 'p) env \<Rightarrow> output_file \<Rightarrow> jsval \<Rightarrow> (unit, 'w state) promise" where
  "writeOutputFile env outputFile outputOptions =
     (let filename =
            resolve env
              (if truthy (getprop outputOptions ''dir'') then getprop outputOptions ''dir''
               else dirname env (getprop outputOptions ''file''))
              (file_fileName outputFile)
      in case outputFile of
           OutputAsset a \<Rightarrow>
             then_do (call_writeFile env filename (Some (source a))) (\<lambda>u. resolved ())
         | OutputChunk c \<Rightarrow>
             (case chunk_map c of
                Some m \<Rightarrow>
                  if truthy (getprop outputOptions ''sourcemap'') then
                    (if getprop outputOptions ''sourcemap'' = JStr ''inline'' then
                       then_do
                         (call_writeFile env filename
                            (Some ((case code c of Some src \<Rightarrow> src | None \<Rightarrow> ''undefined'')
                               @ ''//# '' @ SOURCEMAPPING_URL @ ''='' @ toUrl m @ [CHR 0x0A])))
                         (\<lambda>u. call_onwrite env outputOptions outputFile)
                     else
                       (\<lambda>s.
                          case call_writeFile env (filename @ ''.map'') (Some (toString m)) s of
                            (mapResult, s1) \<Rightarrow>
                              then_do
                                (call_writeFile env filename
                                   (Some ((case code c of Some src \<Rightarrow> src | None \<Rightarrow> ''undefined'')
                                      @ ''//# '' @ SOURCEMAPPING_URL @ ''=''
                                      @ basename env (JStr (fileName c)) @ ''.map'' @ [CHR 0x0A])))
                                (\<lambda>u. then_do (\<lambda>s2. (mapResult, s2))
                                        (\<lambda>u. call_onwrite env outputOptions outputFile))
                                s1))
                  else
                    then_do (call_writeFile env filename (code c))
                      (\<lambda>u. call_onwrite env outputOptions outputFile)
              | None \<Rightarrow>
                  then_do (call_writeFile env filename (code c))
                    (\<lambda>u. call_onwrite env outputOptions outputFile)))"

text \<open>
  \<open>Promise.all\<close> over promises started in order: all of them run, and the aggregate
  rejects with the error of the first one that fails.
\<close>

fun promise_all :: "('a, 's) promise list \<Rightarrow> ('a list, 's) promise" where
  "promise_all [] s = (Inr [], s)"
| "promise_all (p # ps) s =
     (case p s of
        (r, s1) \<Rightarrow>
          (case promise_all ps s1 of
             (rs, s2) \<Rightarrow>
               ((case r of
                   Inl e \<Rightarrow> Inl e
                 | Inr a \<Rightarrow> (case rs of Inl e \<Rightarrow> Inl e | Inr as \<Rightarrow> Inr (a # as))),
                s2)))"

definition sourcemapFile_message :: string where
  "sourcemapFile_message =
     [CHR 0x22] @ ''sourcemapFile'' @ [CHR 0x22] @ '' is only supported for single-file builds.''"

text \<open>The loop of \<open>write\<close> that counts the chunks of the bundle and stops at the second.\<close>

fun countChunks :: "output_file list \<Rightarrow> nat \<Rightarrow> nat" where
  "countChunks [] chunkCnt = chunkCnt"
| "countChunks (file # rest) chunkCnt =
     (if isAsset file then countChunks rest chunkCnt
      else if chunkCnt + 1 > 1 then chunkCnt + 1
      else countChunks rest (chunkCnt + 1))"

definition build_write ::
  "('w, 'p) env \<Rightarrow> 'p build_handle \<Rightarrow> jsval \<Rightarrow> 'w state \<Rightarrow> output_file list outcome \<times> 'w state" where
  "build_write env build outputOptions s =
     (if \<not> truthy outputOptions
         \<or> (\<not> truthy (getprop outputOptions ''dir'') \<and> \<not> truthy (getprop outputOptions ''file''))
      then (Thrown (JSError (Some ''MISSING_OPTION'')
                      ''You must specify output.file or output.dir for the build.''), s)
      else
        (case generate env (b_inputOptions build) outputOptions True s of
           (Thrown e, s1) \<Rightarrow> (Thrown e, s1)
         | (Rejected e, s1) \<Rightarrow> (Rejected e, s1)
         | (Resolved outputBundle, s1) \<Rightarrow>
             (let chunkCnt = countChunks (bundle_files outputBundle) 0
              in if chunkCnt > 1 \<and> truthy (getprop outputOptions ''sourcemapFile'') then
                   (Rejected (JSError (Some ''INVALID_OPTION'') sourcemapFile_message), s1)
                 else if chunkCnt > 1 \<and> typeof_string (getprop outputOptions ''file'') then
                   (Rejected (JSError (Some ''INVALID_OPTION'')
                      (''When building multiple chunks, the output.dir option must be used, not output.file.''
                         @ (if \<not> typeof_string (input (b_inputOptions build))
                               \<or> inlineDynamicImports (b_inputOptions build) = JBool True
                            then []
                            else '' To inline dynamic imports set the inlineDynamicImports: true option.''))),
                    s1)
                 else
                   settle
                     (then_do
                        (promise_all
                           (map (\<lambda>file. writeOutputFile env file outputOptions)
                              (bundle_files outputBundle)))
                        (\<lambda>u. resolved (createOutput outputBundle)))
                     s1)))"

section \<open>Observing a run\<close>

text \<open>The arguments of the parallel dispatches of one hook, in the order of the trace.\<close>

fun hook_dispatches :: "string \<Rightarrow> event list \<Rightarrow> hook_args list" where
  "hook_dispatches name [] = []"
| "hook_dispatches name (HookParallel n args # tr) =
     (if n = name then args # hook_dispatches name tr else hook_dispatches name tr)"
| "hook_dispatches name (ev # tr) = hook_dispatches name tr"

text \<open>The outcomes of the calls of the chunk post-optimizer, in the order of the trace.\<close>

fun optimizer_runs :: "event list \<Rightarrow> bool list" where
  "optimizer_runs [] = []"
| "optimizer_runs (OptimizeChunks ok # tr) = ok # optimizer_runs tr"
| "optimizer_runs (ev # tr) = optimizer_runs tr"



text \<open>
  An observation \<open>g\<close> of the state is kept by a computation when no run of it changes
  \<open>g\<close>. \<open>frame_obs\<close>: the observation does not depend on the world or on the chunks;
  \<open>ignores\<close>: it does not see the event.
\<close>

definition keeps :: "('s \<Rightarrow> 'o) \<Rightarrow> ('a, 's) promise \<Rightarrow> bool" where
  "keeps g p \<longleftrightarrow> (\<forall>s r s'. p s = (r, s') \<longrightarrow> g s' = g s)"

definition frame_obs :: "('w state \<Rightarrow> 'o) \<Rightarrow> bool" where
  "frame_obs g \<longleftrightarrow> (\<forall>s w. g (s\<lparr>world := w\<rparr>) = g s) \<and> (\<forall>s cs. g (s\<lparr>chunks := cs\<rparr>) = g s)"

definition ignores :: "('w state \<Rightarrow> 'o) \<Rightarrow> event \<Rightarrow> bool" where
  "ignores g ev \<longleftrightarrow> (\<forall>s. g (record_event ev s) = g s)"

definition renderError_dispatches :: "'w state \<Rightarrow> hook_args list" where
  "renderError_dispatches s = hook_dispatches ''renderError'' (trace s)"

text \<open>
  What a computation may do to the optimizer: nothing; or one completed pass, from an
  unset flag, that sets the flag; or one failed pass, from an unset flag, that leaves it
  unset.
\<close>

definition optimizer_state :: "'w state \<Rightarrow> bool list \<times> bool" where
  "optimizer_state s = (optimizer_runs (trace s), optimized s)"

definition optimizer_step :: "'w state \<Rightarrow> 'w state \<Rightarrow> bool" where
  "optimizer_step s s' \<longleftrightarrow>
     optimizer_state s' = optimizer_state s
     \<or> (\<not> optimized s \<and> optimizer_runs (trace s') = optimizer_runs (trace s) @ [True]
          \<and> optimized s')
     \<or> (\<not> optimized s \<and> optimizer_runs (trace s') = optimizer_runs (trace s) @ [False]
          \<and> \<not> optimized s')"

definition steps :: "('a, 'w state) promise \<Rightarrow> bool" where
  "steps p \<longleftrightarrow> (\<forall>s r s'. p s = (r, s') \<longrightarrow> optimizer_step s s')"


section \<open>Concrete collaborators and inputs for evaluation\<close>

definition object_of :: "jsval \<Rightarrow> obj" where
  "object_of v = (case v of JObj al \<Rightarrow> al | _ \<Rightarrow> [])"

text \<open>
  Modelled from the spec: \<open>mergeOptions\<close> for output options (\<^verbatim>\<open>utils/mergeOptions\<close>, not
  under \<^verbatim>\<open>src/\<close>). The declared output configuration is handed on; when it is supplied
  as a list, every element is one output configuration (the normaliser then takes the
  first). No key is reported as unknown, the allowed set not being part of the spec.
\<close>

definition mergeOptions_output_spec :: merge_output where
  "mergeOptions_output_spec config =
     (None,
      case getprop config ''output'' of
        JArr xs \<Rightarrow> (if xs = [] then [[]] else map object_of xs)
      | JUndefined \<Rightarrow> [[]]
      | v \<Rightarrow> [object_of v])"

definition example_inputOptions :: "nat input_options" where
  "example_inputOptions =
     \<lparr> input = JStr ''x'', plugins = PluginsFalsy, inlineDynamicImports = JUndefined,
       manualChunks = JUndefined, optimizeChunks = JUndefined, preserveModules = JUndefined,
       output_opt = JUndefined, cache = JUndefined, chunkGroupingSize = JUndefined,
       perf = JUndefined \<rparr>"

text \<open>
  A build used to evaluate the model: one entry facade and one secondary chunk, every
  collaborator and every hook succeeding. Variants replace single collaborators.
\<close>

definition path_basename :: "jsval \<Rightarrow> string" where
  "path_basename v = (case v of JStr s \<Rightarrow> rev (takeWhile (\<lambda>c. c \<noteq> CHR ''/'') (rev s)) | _ \<Rightarrow> [])"

definition example_chunks :: "chunk list" where
  "example_chunks =
     [\<lparr> chunk_id = [], isEntryModuleFacade = True, entryModule = Some ''/src/main.js'',
        exportMode = [], chunk_ref = 0 \<rparr>,
      \<lparr> chunk_id = [], isEntryModuleFacade = False, entryModule = None,
        exportMode = [], chunk_ref = 1 \<rparr>]"

definition example_env :: "(unit, nat) env" where
  "example_env =
     \<lparr> mergeOptions_input = (\<lambda>raw. (raw, None)),
       mergeOptions_output = mergeOptions_output_spec,
       onwarn = (\<lambda>inputOptions msg c w. (Inr (), w)),
       plugin_options = (\<lambda>p. None),
       commondir = (\<lambda>files. ''/src''),
       basename = path_basename,
       dirname = (\<lambda>v. JStr ''.''),
       resolve = (\<lambda>d f. (case d of JStr s \<Rightarrow> s | _ \<Rightarrow> []) @ ''/'' @ f),
       newGraph = (\<lambda>inputOptions watcher w. (Inr (), w)),
       hookParallel = (\<lambda>name args w. (Inr (), w)),
       hookSeq_generateBundle = (\<lambda>outputOptions b isWrite assets w. (Inr (b, assets), w)),
       hookSeq_onwrite = (\<lambda>outputOptions f w. (Inr (), w)),
       graph_build = (\<lambda>inp mc idi pm w. (Inr example_chunks, w)),
       getCache = (\<lambda>w. JObj []),
       watchFiles = (\<lambda>w. [''/src/main.js'']),
       finaliseAssets = (\<lambda>pat w. (Inr [], w)),
       assetsById = (\<lambda>w. []),
       finaliseAsset = (\<lambda>a b pat. Inr b),
       createAddons = (\<lambda>outputOptions w.
          (Inr \<lparr> addons_banner = [], addons_footer = [], addons_intro = [], addons_outro = [] \<rparr>, w)),
       generateInternalExports = (\<lambda>c outputOptions w. (Inr (), w)),
       getExportMode = (\<lambda>c outputOptions w. (Inr ''none'', w)),
       preRender = (\<lambda>c outputOptions inputBase w. (Inr (), w)),
       run_optimizeChunks = (\<lambda>cs outputOptions size inputBase w. (Inr cs, w)),
       generateIdPreserveModules = (\<lambda>c inputBase w. (Inr (''module'' @ string_of_nat (chunk_ref c) @ ''.js''), w)),
       generateId = (\<lambda>c pattern patternName addons outputOptions usedIds w.
          (Inr ((if isEntryModuleFacade c then ''main'' else ''chunk'') @ string_of_nat (chunk_ref c) @ ''.js''), w)),
       getImportIds = (\<lambda>c w. []),
       getExportNames = (\<lambda>c w. []),
       renderedModules = (\<lambda>c w. []),
       render = (\<lambda>c outputOptions addons outputChunk w.
          (Inr \<lparr> rendered_code = ''code'', rendered_map = None \<rparr>, w)),
       writeFile = (\<lambda>filename data w. (Inr (), w)) \<rparr>"

definition initial_state :: "unit state" where
  "initial_state = \<lparr> world = (), trace = [], curWatcher = None, chunks = [], optimized = False \<rparr>"


definition example_build :: "nat build_handle" where
  "example_build = \<lparr> b_cache = JObj [], b_watchFiles = [''/src/main.js''], b_getTimings = False,
      b_inputOptions = example_inputOptions\<lparr>plugins := PluginsArray []\<rparr> \<rparr>"

definition built_state :: "unit state" where
  "built_state = initial_state\<lparr>chunks := example_chunks\<rparr>"

definition failing_build_env :: "(unit, nat) env" where
  "failing_build_env =
     example_env\<lparr>graph_build := (\<lambda>inp mc idi pm w. (Inl (JSError None ''build failed''), w))\<rparr>"

definition failing_buildEnd_env :: "(unit, nat) env" where
  "failing_buildEnd_env =
     failing_build_env\<lparr>hookParallel := (\<lambda>name args w.
        if name = ''buildEnd'' then (Inl (JSError None ''buildEnd failed''), w)
        else (Inr (), w))\<rparr>"


definition example_outputOptions :: jsval where
  "example_outputOptions = JObj [(''format'', JStr ''es''), (''dir'', JStr ''out'')]"



definition failing_render_env :: "(unit, nat) env" where
  "failing_render_env =
     example_env\<lparr>render := (\<lambda>c outputOptions addons outputChunk w.
        if chunk_ref c = 1 then (Inl (JSError None ''render failed''), w)
        else (Inr \<lparr> rendered_code = ''code'', rendered_map = None \<rparr>, w))\<rparr>"

definition failing_generateBundle_env :: "(unit, nat) env" where
  "failing_generateBundle_env =
     example_env\<lparr>hookSeq_generateBundle := (\<lambda>outputOptions b isWrite assets w.
        (Inl (JSError None ''generateBundle failed''), w))\<rparr>"


section \<open>Object spread\<close>

lemma map_of_fold_update:
  "map_of (fold (\<lambda>(k, x). AList.update k x) es t) = map_of t ++ map_of (rev es)"
  by (induction es arbitrary: t)
     (auto simp: update_conv' map_add_def fun_eq_iff split: option.splits)

lemma map_of_rev_distinct:
  "distinct (map fst es) \<Longrightarrow> map_of (rev es) = map_of es"
proof (induction es)
  case Nil
  then show ?case by simp
next
  case (Cons e es)
  obtain k x where e: "e = (k, x)" by (cases e)
  from Cons.prems e have none: "map_of es k = None" and d: "distinct (map fst es)"
    by (auto simp: map_of_eq_None_iff)
  have ih: "map_of (rev es) = map_of es" using Cons.IH d by simp
  show ?case using none
    by (auto simp: e map_of_append ih fun_eq_iff map_add_def split: option.splits)
qed

lemma map_of_spread:
  "map_of (spread t (JObj al)) = map_of t ++ map_of al"
  by (simp add: spread_def map_of_fold_update map_of_rev_distinct distinct_clearjunk
      map_of_clearjunk)

section \<open>Layering of the output defaults (C1)\<close>

lemma normalizeOutputOptions_spec_result:
  assumes "normalizeOutputOptions mergeOptions_output_spec io raw multi = Inr out"
  shows "JObj out = getprop (consolidatedOutputOptions io raw) ''output''"
  using assms
  by (auto simp: normalizeOutputOptions_def mergeOptions_output_spec_def
      consolidatedOutputOptions_def object_of_def error_def Let_def
      split: if_splits sum.splits)

text \<open>
  C1, as the code has it. The object handed to \<open>mergeOptions\<close> spreads the input's
  \<open>output\<close> field last, so for every key of the input's \<open>output\<close> object, whatever the
  call-site options say, the value from the input's \<open>output\<close> wins in the consolidated
  configuration, and in the resulting output options when \<open>mergeOptions\<close> hands the
  configuration on.
\<close>

theorem normalizeOutputOptions_input_output_wins:
  assumes "output_opt inputOptions = JObj defaults" and "map_of defaults k = Some v"
  shows "getprop (getprop (consolidatedOutputOptions inputOptions rawOutputOptions) ''output'') k = v
    \<and> (\<forall>out. normalizeOutputOptions mergeOptions_output_spec inputOptions rawOutputOptions multi
                = Inr out
          \<longrightarrow> getprop (JObj out) k = v)"
proof -
  have "getprop (getprop (consolidatedOutputOptions inputOptions rawOutputOptions) ''output'') k = v"
    using assms by (simp add: consolidatedOutputOptions_def map_of_spread map_add_def)
  then show ?thesis
    using normalizeOutputOptions_spec_result [of inputOptions rawOutputOptions multi] by auto
qed

lemma example_format_clash:
  "normalizeOutputOptions mergeOptions_output_spec
     (example_inputOptions\<lparr>output_opt := JObj [(''format'', JStr ''es'')]\<rparr>)
     (JObj [(''format'', JStr ''cjs'')]) False = Inr [(''format'', JStr ''es'')]"
  by (simp add: normalizeOutputOptions_def mergeOptions_output_spec_def
      consolidatedOutputOptions_def object_of_def example_inputOptions_def spread_def
      checkOutputOptions_def error_def)

theorem normalizeOutputOptions_input_output_wins_witness:
  "getprop (getprop (consolidatedOutputOptions
       (example_inputOptions\<lparr>output_opt := JObj [(''format'', JStr ''es'')]\<rparr>)
       (JObj [(''format'', JStr ''cjs'')])) ''output'') ''format'' = JStr ''es''
   \<and> normalizeOutputOptions mergeOptions_output_spec
       (example_inputOptions\<lparr>output_opt := JObj [(''format'', JStr ''es'')]\<rparr>)
       (JObj [(''format'', JStr ''cjs'')]) False = Inr [(''format'', JStr ''es'')]
   \<and> getprop (JObj [(''format'', JStr ''es'')]) ''format'' = JStr ''es''"
proof -
  have h1: "output_opt (example_inputOptions\<lparr>output_opt := JObj [(''format'', JStr ''es'')]\<rparr>)
              = JObj [(''format'', JStr ''es'')]"
    by simp
  have h2: "map_of [(''format'', JStr ''es'')] ''format'' = Some (JStr ''es'')"
    by simp
  from normalizeOutputOptions_input_output_wins
         [OF h1 h2, of "JObj [(''format'', JStr ''cjs'')]" False]
  show ?thesis using example_format_clash by simp
qed

text \<open>
  The claim as stated fails: the key \<open>format\<close> is present in both the input's \<open>output\<close>
  defaults (\<open>es\<close>) and the call-site options (\<open>cjs\<close>), and the resulting output options
  carry \<open>es\<close>, not the call-site value.
\<close>

theorem normalizeOutputOptions_call_site_loses:
  "normalizeOutputOptions mergeOptions_output_spec
     (example_inputOptions\<lparr>output_opt := JObj [(''format'', JStr ''es'')]\<rparr>)
     (JObj [(''format'', JStr ''cjs'')]) False = Inr [(''format'', JStr ''es'')]
   \<and> getprop (JObj [(''format'', JStr ''cjs'')]) ''format'' = JStr ''cjs''
   \<and> getprop (JObj [(''format'', JStr ''es'')]) ''format'' \<noteq> JStr ''cjs''"
  by (simp add: normalizeOutputOptions_def mergeOptions_output_spec_def
      consolidatedOutputOptions_def object_of_def example_inputOptions_def spread_def
      checkOutputOptions_def error_def)

section \<open>Promise combinators and the trace\<close>

lemma hook_dispatches_append:
  "hook_dispatches name (xs @ ys) = hook_dispatches name xs @ hook_dispatches name ys"
  by (induction name xs rule: hook_dispatches.induct) simp_all


lemma in_world_frame:
  assumes "in_world f s = (r, s1)"
  shows "trace s1 = trace s" and "chunks s1 = chunks s" and "optimized s1 = optimized s"
    and "curWatcher s1 = curWatcher s"
  using assms by (auto simp: in_world_def split: prod.splits)

lemma call_hookParallel_frame:
  assumes "call_hookParallel env name args s = (r, s1)"
  shows "trace s1 = trace s @ [HookParallel name args]" and "chunks s1 = chunks s"
    and "optimized s1 = optimized s"
  using assms
  by (auto simp: call_hookParallel_def in_world_def record_event_def split: prod.splits)

lemma call_hookParallel_result:
  "call_hookParallel env name args s =
     (fst (hookParallel env name args (world s)),
      s\<lparr>trace := trace s @ [HookParallel name args],
        world := snd (hookParallel env name args (world s))\<rparr>)"
  by (simp add: call_hookParallel_def in_world_def record_event_def split: prod.splits)

section \<open>Failure of the build step (C3)\<close>

lemma prepareInputOptions_dispatches:
  assumes "prepareInputOptions env rawInputOptions s = (r, s1)"
  shows "hook_dispatches name (trace s1) = hook_dispatches name (trace s)"
  using assms
  by (auto simp: prepareInputOptions_def call_onwarn_def in_world_def record_event_def Let_def
      hook_dispatches_append split: option.splits prod.splits if_splits sum.splits)

lemma getInputOptions_dispatches:
  assumes "getInputOptions env rawInputOptions s = (r, s1)"
  shows "hook_dispatches name (trace s1) = hook_dispatches name (trace s)"
  using assms prepareInputOptions_dispatches [of env rawInputOptions s _ _ name]
  by (auto simp: getInputOptions_def then_do_def split: prod.splits sum.splits)

text \<open>
  C3. When the options are normalised, the graph is constructed and \<open>buildStart\<close> has
  succeeded, and the build step of the graph then fails with \<open>err\<close>: the run dispatches
  \<open>buildEnd\<close> exactly once, with \<open>err\<close> as its argument, and the promise of \<open>rollup\<close>
  rejects with \<open>err\<close>, or with the error of the \<open>buildEnd\<close> dispatch when that dispatch
  fails itself.
\<close>

theorem rollup_build_failure_buildEnd:
  fixes env :: "('w, 'p) env"
  assumes norm: "getInputOptions env rawInputOptions s = (Inr normalized, s1)"
      and graph: "in_world (newGraph env normalized (curWatcher s1)) s1 = (Inr u, s2)"
      and start: "call_hookParallel env ''buildStart'' NoArgs (s2\<lparr>curWatcher := None\<rparr>)
                    = (Inr u, s3)"
      and build: "in_world (graph_build env (input normalized) (manualChunks normalized)
                    (inlineDynamicImports normalized) (preserveModules normalized)) s3
                  = (Inl err, s4)"
  shows "fst (rollup env rawInputOptions s) =
           Rejected (case fst (hookParallel env ''buildEnd'' (ErrorArg err) (world s4)) of
                       Inl shadow \<Rightarrow> shadow | Inr u \<Rightarrow> err)
         \<and> hook_dispatches ''buildEnd'' (trace (snd (rollup env rawInputOptions s)))
             = hook_dispatches ''buildEnd'' (trace s) @ [ErrorArg err]"
proof -
  have t1: "hook_dispatches ''buildEnd'' (trace s1) = hook_dispatches ''buildEnd'' (trace s)"
    using norm by (rule getInputOptions_dispatches)
  have t2: "trace s2 = trace s1" using graph by (rule in_world_frame)
  have t3: "trace s3 = trace s2 @ [HookParallel ''buildStart'' NoArgs]"
    using call_hookParallel_frame(1) [OF start] by simp
  have t4: "trace s4 = trace s3" using build by (rule in_world_frame)
  have t: "hook_dispatches ''buildEnd'' (trace s4) = hook_dispatches ''buildEnd'' (trace s)"
    using t1 t2 t3 t4 by (simp add: hook_dispatches_append)
  have a: "then_do (call_hookParallel env ''buildStart'' NoArgs)
             (\<lambda>u. in_world (graph_build env (input normalized) (manualChunks normalized)
                (inlineDynamicImports normalized) (preserveModules normalized)))
             (s2\<lparr>curWatcher := None\<rparr>) = (Inl err, s4)"
    by (simp add: then_do_def start build)
  have e: "then_else
             (then_do (call_hookParallel env ''buildStart'' NoArgs)
               (\<lambda>u. in_world (graph_build env (input normalized) (manualChunks normalized)
                  (inlineDynamicImports normalized) (preserveModules normalized))))
             f
             (\<lambda>err. then_do (call_hookParallel env ''buildEnd'' (ErrorArg err))
                       (\<lambda>u. rejected err))
             (s2\<lparr>curWatcher := None\<rparr>)
           = (Inl (case fst (hookParallel env ''buildEnd'' (ErrorArg err) (world s4)) of
                     Inl shadow \<Rightarrow> shadow | Inr u \<Rightarrow> err),
              s4\<lparr>trace := trace s4 @ [HookParallel ''buildEnd'' (ErrorArg err)],
                 world := snd (hookParallel env ''buildEnd'' (ErrorArg err) (world s4))\<rparr>)"
    for f :: "chunk list \<Rightarrow> (chunk list, 'w state) promise"
    unfolding then_else_def a
    by (simp add: then_do_def call_hookParallel_result rejected_def split: sum.splits)
  show ?thesis
    using t
    by (simp add: rollup_def Let_def norm graph settle_def then_do_def [of "then_else _ _ _"] e
        hook_dispatches_append)
qed

theorem rollup_build_failure_buildEnd_witness:
  "fst (rollup failing_build_env (Some example_inputOptions) initial_state)
     = Rejected (JSError None ''build failed'')
   \<and> hook_dispatches ''buildEnd''
        (trace (snd (rollup failing_build_env (Some example_inputOptions) initial_state)))
      = [ErrorArg (JSError None ''build failed'')]
   \<and> fst (rollup failing_buildEnd_env (Some example_inputOptions) initial_state)
     = Rejected (JSError None ''buildEnd failed'')
   \<and> hook_dispatches ''buildEnd''
        (trace (snd (rollup failing_buildEnd_env (Some example_inputOptions) initial_state)))
      = [ErrorArg (JSError None ''build failed'')]"
proof -
  let ?io = "example_inputOptions\<lparr>plugins := PluginsArray []\<rparr>"
  let ?s3 = "initial_state\<lparr>trace := [HookParallel ''buildStart'' NoArgs]\<rparr>"
  have n1: "getInputOptions failing_build_env (Some example_inputOptions) initial_state
              = (Inr ?io, initial_state)"
    by code_simp
  have g1: "in_world (newGraph failing_build_env ?io (curWatcher initial_state)) initial_state
              = (Inr (), initial_state)"
    by code_simp
  have s1: "call_hookParallel failing_build_env ''buildStart'' NoArgs
              (initial_state\<lparr>curWatcher := None\<rparr>) = (Inr (), ?s3)"
    by code_simp
  have b1: "in_world (graph_build failing_build_env (input ?io) (manualChunks ?io)
              (inlineDynamicImports ?io) (preserveModules ?io)) ?s3
              = (Inl (JSError None ''build failed''), ?s3)"
    by code_simp
  have e1: "fst (hookParallel failing_build_env ''buildEnd''
              (ErrorArg (JSError None ''build failed'')) w) = Inr ()" for w
    by (simp add: failing_build_env_def example_env_def)
  have n2: "getInputOptions failing_buildEnd_env (Some example_inputOptions) initial_state
              = (Inr ?io, initial_state)"
    by code_simp
  have g2: "in_world (newGraph failing_buildEnd_env ?io (curWatcher initial_state)) initial_state
              = (Inr (), initial_state)"
    by code_simp
  have s2: "call_hookParallel failing_buildEnd_env ''buildStart'' NoArgs
              (initial_state\<lparr>curWatcher := None\<rparr>) = (Inr (), ?s3)"
    by code_simp
  have b2: "in_world (graph_build failing_buildEnd_env (input ?io) (manualChunks ?io)
              (inlineDynamicImports ?io) (preserveModules ?io)) ?s3
              = (Inl (JSError None ''build failed''), ?s3)"
    by code_simp
  have e2: "fst (hookParallel failing_buildEnd_env ''buildEnd''
              (ErrorArg (JSError None ''build failed'')) w)
              = Inl (JSError None ''buildEnd failed'')" for w
    by (simp add: failing_buildEnd_env_def)
  have t0: "trace initial_state = []"
    by (simp add: initial_state_def)
  from rollup_build_failure_buildEnd [OF n1 g1 s1 b1]
       rollup_build_failure_buildEnd [OF n2 g2 s2 b2]
  show ?thesis
    by (simp add: e1 e2 t0)
qed

section \<open>The order of the output list (C7)\<close>














section \<open>Forbidden input combinations (C8)\<close>

lemma checkInputOptions_inline:
  assumes "truthy (inlineDynamicImports inputOptions)"
      and "truthy (manualChunks inputOptions) \<or> truthy (optimizeChunks inputOptions)
           \<or> (\<exists>xs. input inputOptions = JArr xs \<and> 1 < length xs)
           \<or> (\<exists>al. input inputOptions = JObj al \<and> 1 < length (AList.clearjunk al))"
  shows "\<exists>m. checkInputOptions inputOptions = Inl (JSError (Some ''INVALID_OPTION'') m)"
  using assms
  by (auto simp: checkInputOptions_def error_def multiple_inputs_def object_keys_def)

text \<open>
  C8, as the code has it. For the options that result from merging and from the
  \<open>options\<close> hooks: when \<open>inlineDynamicImports\<close> is set, normalisation fails with
  \<open>INVALID_OPTION\<close> if \<open>manualChunks\<close> or \<open>optimizeChunks\<close> is set, or if the entry
  specifier is a list or a name map with more than one entry. (An entry specifier with
  no entry is not rejected here.)
\<close>

theorem getInputOptions_inlineDynamicImports:
  fixes env :: "('w, 'p) env"
  assumes "prepareInputOptions env rawInputOptions s = (Inr inputOptions, s1)"
      and "truthy (inlineDynamicImports inputOptions)"
      and "truthy (manualChunks inputOptions) \<or> truthy (optimizeChunks inputOptions)
           \<or> (\<exists>xs. input inputOptions = JArr xs \<and> 1 < length xs)
           \<or> (\<exists>al. input inputOptions = JObj al \<and> 1 < length (AList.clearjunk al))"
  shows "\<exists>m. getInputOptions env rawInputOptions s
              = (Inl (JSError (Some ''INVALID_OPTION'') m), s1)"
  using checkInputOptions_inline [OF assms(2,3)] assms(1)
  by (auto simp: getInputOptions_def then_do_def)

theorem getInputOptions_inlineDynamicImports_witness:
  "(\<exists>m. getInputOptions example_env
          (Some (example_inputOptions\<lparr>inlineDynamicImports := JBool True,
                                       input := JArr [JStr ''x'', JStr ''y'']\<rparr>))
          initial_state
        = (Inl (JSError (Some ''INVALID_OPTION'') m), initial_state))
   \<and> (\<exists>m. getInputOptions example_env
          (Some (example_inputOptions\<lparr>inlineDynamicImports := JBool True,
                                       manualChunks := JObj [(''lib'', JArr [JStr ''y''])]\<rparr>))
          initial_state
        = (Inl (JSError (Some ''INVALID_OPTION'') m), initial_state))"
proof -
  let ?a = "example_inputOptions\<lparr>inlineDynamicImports := JBool True,
                                  input := JArr [JStr ''x'', JStr ''y'']\<rparr>"
  let ?b = "example_inputOptions\<lparr>inlineDynamicImports := JBool True,
                                  manualChunks := JObj [(''lib'', JArr [JStr ''y''])]\<rparr>"
  have pa: "prepareInputOptions example_env (Some ?a) initial_state
              = (Inr (?a\<lparr>plugins := PluginsArray []\<rparr>), initial_state)"
    by code_simp
  have pb: "prepareInputOptions example_env (Some ?b) initial_state
              = (Inr (?b\<lparr>plugins := PluginsArray []\<rparr>), initial_state)"
    by code_simp
  have ta: "truthy (inlineDynamicImports (?a\<lparr>plugins := PluginsArray []\<rparr>))"
    by simp
  have tb: "truthy (inlineDynamicImports (?b\<lparr>plugins := PluginsArray []\<rparr>))"
    by simp
  have ca: "truthy (manualChunks (?a\<lparr>plugins := PluginsArray []\<rparr>))
        \<or> truthy (optimizeChunks (?a\<lparr>plugins := PluginsArray []\<rparr>))
        \<or> (\<exists>xs. input (?a\<lparr>plugins := PluginsArray []\<rparr>) = JArr xs \<and> 1 < length xs)
        \<or> (\<exists>al. input (?a\<lparr>plugins := PluginsArray []\<rparr>) = JObj al
                \<and> 1 < length (AList.clearjunk al))"
    by simp
  have cb: "truthy (manualChunks (?b\<lparr>plugins := PluginsArray []\<rparr>))
        \<or> truthy (optimizeChunks (?b\<lparr>plugins := PluginsArray []\<rparr>))
        \<or> (\<exists>xs. input (?b\<lparr>plugins := PluginsArray []\<rparr>) = JArr xs \<and> 1 < length xs)
        \<or> (\<exists>al. input (?b\<lparr>plugins := PluginsArray []\<rparr>) = JObj al
                \<and> 1 < length (AList.clearjunk al))"
    by simp
  from getInputOptions_inlineDynamicImports [OF pa ta ca]
       getInputOptions_inlineDynamicImports [OF pb tb cb]
  show ?thesis by blast
qed

text \<open>
  The claim as stated fails: with \<open>inlineDynamicImports\<close> set and an empty list of
  entries (not exactly one entry), normalisation succeeds.
\<close>

theorem getInputOptions_no_entry_accepted:
  "getInputOptions example_env
     (Some (example_inputOptions\<lparr>input := JArr [], inlineDynamicImports := JBool True\<rparr>))
     initial_state
   = (Inr (example_inputOptions\<lparr>input := JArr [], inlineDynamicImports := JBool True,
                                plugins := PluginsArray []\<rparr>), initial_state)
   \<and> array_length (JArr []) \<noteq> 1"
  by code_simp

section \<open>Missing output target of write (C9)\<close>

text \<open>
  C9, as the code has it. When \<open>write\<close> is called with no output object, or with one
  whose \<open>file\<close> and \<open>dir\<close> are both unset (or falsy), the call throws, before any promise
  is returned, a \<open>MISSING_OPTION\<close> error with the message
  \<open>You must specify output.file or output.dir for the build.\<close>, and the state is
  unchanged: nothing is generated, no hook runs and no file is written.
\<close>

theorem build_write_missing_option:
  assumes "\<not> truthy outputOptions
           \<or> (\<not> truthy (getprop outputOptions ''dir'') \<and> \<not> truthy (getprop outputOptions ''file''))"
  shows "build_write env build outputOptions s =
           (Thrown (JSError (Some ''MISSING_OPTION'')
                      ''You must specify output.file or output.dir for the build.''), s)"
  using assms by (simp add: build_write_def)

theorem build_write_missing_option_witness:
  "build_write example_env example_build JUndefined built_state =
     (Thrown (JSError (Some ''MISSING_OPTION'')
                ''You must specify output.file or output.dir for the build.''), built_state)
   \<and> build_write example_env example_build (JObj [(''format'', JStr ''cjs'')]) built_state =
     (Thrown (JSError (Some ''MISSING_OPTION'')
                ''You must specify output.file or output.dir for the build.''), built_state)"
proof -
  have a: "\<not> truthy JUndefined
           \<or> (\<not> truthy (getprop JUndefined ''dir'') \<and> \<not> truthy (getprop JUndefined ''file''))"
    by simp
  have b: "\<not> truthy (JObj [(''format'', JStr ''cjs'')])
           \<or> (\<not> truthy (getprop (JObj [(''format'', JStr ''cjs'')]) ''dir'')
               \<and> \<not> truthy (getprop (JObj [(''format'', JStr ''cjs'')]) ''file''))"
    by simp
  from build_write_missing_option [OF a, of example_env example_build built_state]
       build_write_missing_option [OF b, of example_env example_build built_state]
  show ?thesis by simp
qed

text \<open>
  The claim as stated fails: no promise is returned that could reject; the call of
  \<open>write\<close> with \<open>{format: 'es'}\<close> throws.
\<close>

theorem build_write_throws_not_rejects:
  "fst (build_write example_env example_build (JObj [(''format'', JStr ''es'')]) built_state)
     = Thrown (JSError (Some ''MISSING_OPTION'')
                 ''You must specify output.file or output.dir for the build.'')
   \<and> fst (build_write example_env example_build (JObj [(''format'', JStr ''es'')]) built_state)
     \<noteq> Rejected (JSError (Some ''MISSING_OPTION'')
                 ''You must specify output.file or output.dir for the build.'')"
  by code_simp

section \<open>Option errors of generate are thrown (C10)\<close>

text \<open>
  C10. When the normalisation of the output options fails, \<open>generate\<close> of the handle
  throws the error at the call site, no promise is returned and the state is unchanged;
  so does \<open>write\<close> when it has an output target. In particular \<open>generate\<close> without an
  output object throws \<open>You must supply an options object\<close>. The top-level \<open>rollup\<close>
  instead returns a promise rejected with the error of its input normalisation.
\<close>

theorem option_errors_thrown_by_generate:
  fixes env :: "('w, 'p) env"
  shows "(normalizeOutputOptions (mergeOptions_output env) (b_inputOptions build)
            rawOutputOptions (1 < length (chunks s)) = Inl e
          \<longrightarrow> build_generate env build rawOutputOptions s = (Thrown e, s)
              \<and> (truthy (getprop rawOutputOptions ''dir'')
                    \<or> truthy (getprop rawOutputOptions ''file'')
                  \<longrightarrow> build_write env build rawOutputOptions s = (Thrown e, s)))
       \<and> (\<not> truthy rawOutputOptions
          \<longrightarrow> build_generate env build rawOutputOptions s
                = (Thrown (JSError None ''You must supply an options object''), s))
       \<and> (getInputOptions env rawInputOptions s = (Inl e, s1)
          \<longrightarrow> rollup env rawInputOptions s = (Rejected e, s1))"
proof (intro conjI impI)
  assume n: "normalizeOutputOptions (mergeOptions_output env) (b_inputOptions build)
               rawOutputOptions (1 < length (chunks s)) = Inl e"
  then show "build_generate env build rawOutputOptions s = (Thrown e, s)"
    by (simp add: build_generate_def generate_def)
  assume "truthy (getprop rawOutputOptions ''dir'') \<or> truthy (getprop rawOutputOptions ''file'')"
  then have "truthy rawOutputOptions"
    by (cases rawOutputOptions) auto
  then show "build_write env build rawOutputOptions s = (Thrown e, s)"
    using n \<open>truthy (getprop rawOutputOptions ''dir'') \<or> truthy (getprop rawOutputOptions ''file'')\<close>
    by (auto simp: build_write_def generate_def)
next
  assume "\<not> truthy rawOutputOptions"
  then show "build_generate env build rawOutputOptions s
               = (Thrown (JSError None ''You must supply an options object''), s)"
    by (simp add: build_generate_def generate_def normalizeOutputOptions_def)
next
  assume "getInputOptions env rawInputOptions s = (Inl e, s1)"
  then show "rollup env rawInputOptions s = (Rejected e, s1)"
    by (simp add: rollup_def)
qed

theorem option_errors_thrown_by_generate_witness:
  "build_generate example_env example_build (JObj [(''file'', JStr ''x'')]) built_state
     = (Thrown (JSError None format_message), built_state)
   \<and> build_write example_env example_build (JObj [(''file'', JStr ''x'')]) built_state
     = (Thrown (JSError None format_message), built_state)
   \<and> build_generate example_env example_build JUndefined built_state
     = (Thrown (JSError None ''You must supply an options object''), built_state)
   \<and> rollup example_env None initial_state
     = (Rejected (JSError None ''You must supply an options object to rollup''), initial_state)"
proof -
  have n: "normalizeOutputOptions (mergeOptions_output example_env) (b_inputOptions example_build)
             (JObj [(''file'', JStr ''x'')]) (1 < length (chunks built_state))
           = Inl (JSError None format_message)"
    by code_simp
  have f: "truthy (getprop (JObj [(''file'', JStr ''x'')]) ''dir'')
           \<or> truthy (getprop (JObj [(''file'', JStr ''x'')]) ''file'')"
    by simp
  have u: "\<not> truthy JUndefined"
    by simp
  have i: "getInputOptions example_env None initial_state
           = (Inl (JSError None ''You must supply an options object to rollup''), initial_state)"
    by code_simp
  from option_errors_thrown_by_generate
         [where env = example_env and build = example_build
            and rawOutputOptions = "JObj [(''file'', JStr ''x'')]" and s = built_state
            and e = "JSError None format_message"]
       option_errors_thrown_by_generate
         [where env = example_env and build = example_build
            and rawOutputOptions = JUndefined and s = built_state
            and rawInputOptions = None and e = "JSError None ''You must supply an options object to rollup''"
            and ?s1.0 = initial_state]
       option_errors_thrown_by_generate
         [where env = example_env and rawInputOptions = None and s = initial_state
            and e = "JSError None ''You must supply an options object to rollup''"
            and ?s1.0 = initial_state]
  show ?thesis
    using n f u i by blast
qed

section \<open>Chunk naming (C6)\<close>









section \<open>Validations of multi-chunk builds (C2)\<close>







section \<open>Observations kept by the generate pipeline\<close>


lemma keepsD: "keeps g p \<Longrightarrow> p s = (r, s') \<Longrightarrow> g s' = g s"
  by (auto simp: keeps_def)


lemma keeps_resolved: "keeps g (resolved a)"
  by (simp add: keeps_def resolved_def)




lemma keeps_then_do:
  assumes "keeps g p" and "\<And>a. keeps g (f a)"
  shows "keeps g (then_do p f)"
  unfolding keeps_def then_do_def
proof (intro allI impI)
  fix s r s'
  assume run: "(case p s of (Inl e, s1) \<Rightarrow> (Inl e, s1) | (Inr a, s1) \<Rightarrow> f a s1) = (r, s')"
  obtain r1 s1 where p: "p s = (r1, s1)" by (cases "p s")
  have g1: "g s1 = g s" using assms(1) p by (rule keepsD)
  show "g s' = g s"
  proof (cases r1)
    case (Inl e)
    with run p g1 show ?thesis by simp
  next
    case (Inr a)
    with run p have "f a s1 = (r, s')" by simp
    with assms(2) have "g s' = g s1" by (rule keepsD)
    with g1 show ?thesis by simp
  qed
qed


lemma keeps_in_world: "frame_obs g \<Longrightarrow> keeps g (in_world f)"
  by (auto simp: keeps_def frame_obs_def in_world_def split: prod.splits)


lemma keeps_call_hookParallel:
  "frame_obs g \<Longrightarrow> ignores g (HookParallel name args) \<Longrightarrow> keeps g (call_hookParallel env name args)"
  by (auto simp: keeps_def frame_obs_def ignores_def call_hookParallel_def in_world_def
      split: prod.splits)


lemma keeps_forEachChunk:
  assumes "frame_obs g" and "\<And>c. keeps g (body c)"
  shows "keeps g (forEachChunk body ks)"
  unfolding keeps_def
proof (intro allI impI)
  fix s r s'
  assume "forEachChunk body ks s = (r, s')"
  then show "g s' = g s"
  proof (induction ks arbitrary: s)
    case Nil
    then show ?case by simp
  next
    case (Cons k ks)
    obtain r1 s1 where b: "body (chunks s ! k) s = (r1, s1)" by (cases "body (chunks s ! k) s")
    have g1: "g s1 = g s" using assms(2) b by (rule keepsD)
    show ?case
    proof (cases r1)
      case (Inl e)
      with Cons.prems b g1 show ?thesis by simp
    next
      case (Inr c)
      with Cons.prems b
      have "forEachChunk body ks (s1\<lparr>chunks := (chunks s1)[k := c]\<rparr>) = (r, s')" by simp
      then have "g s' = g (s1\<lparr>chunks := (chunks s1)[k := c]\<rparr>)" by (rule Cons.IH)
      with g1 assms(1) show ?thesis by (simp add: frame_obs_def)
    qed
  qed
qed


lemma keeps_prepareExports:
  "frame_obs g \<Longrightarrow> keeps g (prepareExports env inputOptions outputOptions c)"
  unfolding prepareExports_def
  by (intro keeps_then_do) (auto intro!: keeps_in_world keeps_resolved keeps_then_do)


lemma keeps_preRenderChunk:
  "frame_obs g \<Longrightarrow> keeps g (preRenderChunk env outputOptions inputBase c)"
  unfolding preRenderChunk_def
  by (intro keeps_then_do keeps_in_world keeps_resolved)


lemma keeps_nameChunks:
  assumes "frame_obs g"
  shows "keeps g (nameChunks env inputOptions outputOptions addons inputBase ks usedIds)"
  unfolding keeps_def
proof (intro allI impI)
  fix s r s'
  assume "nameChunks env inputOptions outputOptions addons inputBase ks usedIds s = (r, s')"
  then show "g s' = g s"
  proof (induction ks arbitrary: s usedIds)
    case Nil
    then show ?case by simp
  next
    case (Cons k ks)
    have w: "g (t\<lparr>world := w\<rparr>) = g t" and c: "g (t\<lparr>chunks := cs\<rparr>) = g t" for t w cs
      using assms by (simp_all add: frame_obs_def)
    show ?case
    proof (cases "truthy (getprop (JObj outputOptions) ''file'')")
      case True
      with Cons.prems Cons.IH show ?thesis
        by (fastforce simp: Let_def c simp del: getprop.simps)
    next
      case False
      with Cons.prems show ?thesis
        by (auto simp: Let_def in_world_def w c simp del: getprop.simps
            split: if_splits prod.splits sum.splits dest!: Cons.IH)
    qed
  qed
qed


lemma keeps_renderChunks:
  assumes "frame_obs g" and "\<And>a. ignores g (HookParallel ''ongenerate'' a)"
  shows "keeps g (renderChunks env outputOptions addons cs outputBundle)"
  unfolding keeps_def
proof (intro allI impI)
  fix s r s'
  assume "renderChunks env outputOptions addons cs outputBundle s = (r, s')"
  then show "g s' = g s"
  proof (induction cs arbitrary: s outputBundle r)
    case Nil
    then show ?case by simp
  next
    case (Cons c cs)
    have w: "g (t\<lparr>world := w\<rparr>) = g t" for t w
      using assms(1) by (simp add: frame_obs_def)
    have h: "g (record_event (HookParallel ''ongenerate'' a) t) = g t" for t a
      using assms(2) by (simp add: ignores_def)
    from Cons.prems show ?case
      by (auto simp: Let_def in_world_def call_hookParallel_def w h
          split: option.splits output_file.splits prod.splits sum.splits dest!: Cons.IH)
  qed
qed

lemma keeps_forEachChunk_all:
  assumes "frame_obs g" and "\<And>c. keeps g (body c)"
  shows "keeps g (\<lambda>s. forEachChunk body [0..<length (chunks s)] s)"
  unfolding keeps_def
proof (intro allI impI)
  fix s r s'
  assume "forEachChunk body [0..<length (chunks s)] s = (r, s')"
  with keeps_forEachChunk [OF assms] show "g s' = g s" by (rule keepsD)
qed

lemma keeps_nameChunks_all:
  assumes "frame_obs g"
  shows "keeps g (\<lambda>s. nameChunks env inputOptions outputOptions addons inputBase
                        [0..<length (chunks s)] {} s)"
  unfolding keeps_def
proof (intro allI impI)
  fix s r s'
  assume "nameChunks env inputOptions outputOptions addons inputBase
            [0..<length (chunks s)] {} s = (r, s')"
  with keeps_nameChunks [OF assms] show "g s' = g s" by (rule keepsD)
qed

lemma keeps_renderChunks_all:
  assumes "frame_obs g" and "\<And>a. ignores g (HookParallel ''ongenerate'' a)"
  shows "keeps g (\<lambda>s. renderChunks env outputOptions addons (chunks s)
                        (assignChunks env (world s) (chunks s) outputBundle) s)"
  unfolding keeps_def
proof (intro allI impI)
  fix s r s'
  assume "renderChunks env outputOptions addons (chunks s)
            (assignChunks env (world s) (chunks s) outputBundle) s = (r, s')"
  with keeps_renderChunks [OF assms] show "g s' = g s" by (rule keepsD)
qed

lemma keeps_renderPhase:
  assumes f: "frame_obs g" and i: "\<And>a. ignores g (HookParallel ''ongenerate'' a)"
      and o: "keeps g (optimizeStep env inputOptions outputOptions inputBase)"
  shows "keeps g (renderPhase env inputOptions outputOptions inputBase outputBundle addons)"
  unfolding renderPhase_def
proof (intro keeps_then_do)
  show "keeps g (\<lambda>s. forEachChunk (prepareExports env inputOptions outputOptions)
                        [0..<length (chunks s)] s)"
    using f keeps_prepareExports [OF f] by (rule keeps_forEachChunk_all)
  show "keeps g (\<lambda>s. forEachChunk (preRenderChunk env outputOptions inputBase)
                        [0..<length (chunks s)] s)"
    using f keeps_preRenderChunk [OF f] by (rule keeps_forEachChunk_all)
  show "keeps g (optimizeStep env inputOptions outputOptions inputBase)"
    by (rule o)
  show "keeps g (\<lambda>s. nameChunks env inputOptions outputOptions addons inputBase
                        [0..<length (chunks s)] {} s)"
    using f by (rule keeps_nameChunks_all)
  show "keeps g (\<lambda>s. renderChunks env outputOptions addons (chunks s)
                        (assignChunks env (world s) (chunks s) outputBundle) s)"
    using f i by (rule keeps_renderChunks_all)
qed

lemma keeps_renderChain:
  assumes f: "frame_obs g" and i: "\<And>a. ignores g (HookParallel ''ongenerate'' a)"
      and r: "ignores g (HookParallel ''renderStart'' NoArgs)"
      and o: "keeps g (optimizeStep env inputOptions outputOptions inputBase)"
  shows "keeps g (renderChain env inputOptions outputOptions inputBase outputBundle)"
  unfolding renderChain_def
proof (intro keeps_then_do)
  show "keeps g (call_hookParallel env ''renderStart'' NoArgs)"
    using f r by (rule keeps_call_hookParallel)
  show "keeps g (in_world (createAddons env outputOptions))"
    using f by (rule keeps_in_world)
  show "keeps g (renderPhase env inputOptions outputOptions inputBase outputBundle a)" for a
    using f i o by (rule keeps_renderPhase)
qed

lemma keeps_generateBundle:
  assumes f: "frame_obs g" and i: "\<And>a. ignores g (HookSeq ''generateBundle'' a)"
  shows "keeps g
     (then_do (\<lambda>s. call_generateBundle env outputOptions bundle1 isWrite
                      (assetsById env (world s)) s)
        (\<lambda>(bundle2, assets) s. (finaliseOpenAssets env assetFileNames assets bundle2, s)))"
  unfolding keeps_def
proof (intro allI impI)
  fix s r s'
  assume run: "then_do (\<lambda>s. call_generateBundle env outputOptions bundle1 isWrite
                      (assetsById env (world s)) s)
        (\<lambda>(bundle2, assets) s. (finaliseOpenAssets env assetFileNames assets bundle2, s)) s
        = (r, s')"
  let ?s0 = "record_event (HookSeq ''generateBundle''
               (GenerateBundleArgs outputOptions bundle1 isWrite)) s"
  obtain r1 w1 where h: "hookSeq_generateBundle env outputOptions bundle1 isWrite
                           (assetsById env (world s)) (world ?s0) = (r1, w1)"
    by (cases "hookSeq_generateBundle env outputOptions bundle1 isWrite
                           (assetsById env (world s)) (world ?s0)")
  have s': "s' = ?s0\<lparr>world := w1\<rparr>"
    using run h
    by (cases r1) (auto simp: then_do_def call_generateBundle_def in_world_def split: prod.splits)
  have "g (?s0\<lparr>world := w1\<rparr>) = g ?s0" using f by (simp add: frame_obs_def)
  also have "\<dots> = g s" using i by (simp add: ignores_def)
  finally show "g s' = g s" using s' by simp
qed

section \<open>Failures of generate and the renderError hook (C4)\<close>


lemma frame_renderError: "frame_obs renderError_dispatches"
  by (simp add: frame_obs_def renderError_dispatches_def)

lemma ignores_renderError_hook:
  "name \<noteq> ''renderError'' \<Longrightarrow> ignores renderError_dispatches (HookParallel name args)"
  by (simp add: ignores_def renderError_dispatches_def record_event_def hook_dispatches_append)

lemma ignores_renderError_hookSeq: "ignores renderError_dispatches (HookSeq name args)"
  by (simp add: ignores_def renderError_dispatches_def record_event_def hook_dispatches_append)

lemma ignores_renderError_optimizer: "ignores renderError_dispatches (OptimizeChunks ok)"
  by (simp add: ignores_def renderError_dispatches_def record_event_def hook_dispatches_append)

lemma keeps_optimizeStep_renderError:
  "keeps renderError_dispatches (optimizeStep env inputOptions outputOptions inputBase)"
  unfolding keeps_def
proof (intro allI impI)
  fix s r s'
  assume run: "optimizeStep env inputOptions outputOptions inputBase s = (r, s')"
  show "renderError_dispatches s' = renderError_dispatches s"
  proof (cases "\<not> optimized s \<and> truthy (optimizeChunks inputOptions)")
    case False
    with run show ?thesis by (auto simp: optimizeStep_def)
  next
    case True
    obtain r1 w1 where c: "run_optimizeChunks env (chunks s) outputOptions
                             (chunkGroupingSize inputOptions) inputBase (world s) = (r1, w1)"
      by (cases "run_optimizeChunks env (chunks s) outputOptions
                             (chunkGroupingSize inputOptions) inputBase (world s)")
    from run True c show ?thesis
      by (cases r1)
         (auto simp: optimizeStep_def in_world_def record_event_def renderError_dispatches_def
            hook_dispatches_append)
  qed
qed

lemma keeps_renderChain_renderError:
  "keeps renderError_dispatches
     (renderChain env inputOptions outputOptions inputBase outputBundle)"
  by (rule keeps_renderChain)
     (simp_all add: frame_renderError ignores_renderError_hook keeps_optimizeStep_renderError)

lemma keeps_generateBundle_renderError:
  "keeps renderError_dispatches
     (then_do (\<lambda>s. call_generateBundle env outputOptions bundle1 isWrite
                      (assetsById env (world s)) s)
        (\<lambda>(bundle2, assets) s. (finaliseOpenAssets env assetFileNames assets bundle2, s)))"
  by (rule keeps_generateBundle) (simp_all add: frame_renderError ignores_renderError_hookSeq)

lemma generate_unfold:
  assumes norm: "normalizeOutputOptions (mergeOptions_output env) inputOptions rawOutputOptions
                   (1 < length (chunks s)) = Inr outputOptions"
      and assets: "in_world (finaliseAssets env
                     (or_default (getprop (JObj outputOptions) ''assetFileNames'')
                        (JStr ''assets/[name]-[hash][extname]''))) s = (Inr outputBundle, s1)"
  shows "generate env inputOptions rawOutputOptions isWrite s =
           settle (generateChain env inputOptions outputOptions
                     (or_default (getprop (JObj outputOptions) ''assetFileNames'')
                        (JStr ''assets/[name]-[hash][extname]''))
                     (commondir env (List.map_filter entryModule (chunks s1)))
                     outputBundle isWrite) s1"
  unfolding generate_def
  by (simp only: norm sum.case Let_def assets prod.case)

lemma generate_renderError_async:
  fixes env :: "('w, 'p) env"
  assumes norm: "normalizeOutputOptions (mergeOptions_output env) inputOptions rawOutputOptions
                   (1 < length (chunks s)) = Inr outputOptions"
      and assets: "in_world (finaliseAssets env
                     (or_default (getprop (JObj outputOptions) ''assetFileNames'')
                        (JStr ''assets/[name]-[hash][extname]''))) s = (Inr outputBundle, s1)"
  shows "(renderChain env inputOptions outputOptions
            (commondir env (List.map_filter entryModule (chunks s1))) outputBundle s1
            = (Inl err, s2)
          \<longrightarrow> fst (generate env inputOptions rawOutputOptions isWrite s)
                = Rejected (case fst (hookParallel env ''renderError'' (ErrorArg err) (world s2)) of
                              Inl shadow \<Rightarrow> shadow | Inr u \<Rightarrow> err)
              \<and> hook_dispatches ''renderError''
                   (trace (snd (generate env inputOptions rawOutputOptions isWrite s)))
                 = hook_dispatches ''renderError'' (trace s) @ [ErrorArg err])
       \<and> (renderChain env inputOptions outputOptions
            (commondir env (List.map_filter entryModule (chunks s1))) outputBundle s1
            = (Inr rendered, s2)
          \<longrightarrow> hook_dispatches ''renderError''
                   (trace (snd (generate env inputOptions rawOutputOptions isWrite s)))
                 = hook_dispatches ''renderError'' (trace s))"
proof (intro conjI impI)
  let ?afn = "or_default (getprop (JObj outputOptions) ''assetFileNames'')
                (JStr ''assets/[name]-[hash][extname]'')"
  let ?base = "commondir env (List.map_filter entryModule (chunks s1))"
  have t1: "renderError_dispatches s1 = renderError_dispatches s"
    using in_world_frame(1) [OF assets] by (simp add: renderError_dispatches_def)
  {
    assume chain: "renderChain env inputOptions outputOptions ?base outputBundle s1 = (Inl err, s2)"
    have t2: "renderError_dispatches s2 = renderError_dispatches s1"
      using keeps_renderChain_renderError chain by (rule keepsD)
    have c: "catch_do (renderChain env inputOptions outputOptions ?base outputBundle)
               (\<lambda>err. then_do (call_hookParallel env ''renderError'' (ErrorArg err))
                         (\<lambda>u. rejected err)) s1
             = (Inl (case fst (hookParallel env ''renderError'' (ErrorArg err) (world s2)) of
                       Inl shadow \<Rightarrow> shadow | Inr u \<Rightarrow> err),
                s2\<lparr>trace := trace s2 @ [HookParallel ''renderError'' (ErrorArg err)],
                   world := snd (hookParallel env ''renderError'' (ErrorArg err) (world s2))\<rparr>)"
      unfolding catch_do_def chain
      by (simp add: then_do_def call_hookParallel_result rejected_def split: sum.splits)
    have g: "generate env inputOptions rawOutputOptions isWrite s
             = (Rejected (case fst (hookParallel env ''renderError'' (ErrorArg err) (world s2)) of
                       Inl shadow \<Rightarrow> shadow | Inr u \<Rightarrow> err),
                s2\<lparr>trace := trace s2 @ [HookParallel ''renderError'' (ErrorArg err)],
                   world := snd (hookParallel env ''renderError'' (ErrorArg err) (world s2))\<rparr>)"
      unfolding generate_unfold [OF norm assets] generateChain_def settle_def
      by (simp add: then_do_def [of "catch_do _ _"] c)
    show "fst (generate env inputOptions rawOutputOptions isWrite s)
                = Rejected (case fst (hookParallel env ''renderError'' (ErrorArg err) (world s2)) of
                              Inl shadow \<Rightarrow> shadow | Inr u \<Rightarrow> err)"
      by (simp add: g)
    show "hook_dispatches ''renderError''
                   (trace (snd (generate env inputOptions rawOutputOptions isWrite s)))
                 = hook_dispatches ''renderError'' (trace s) @ [ErrorArg err]"
      using t1 t2 by (simp add: g renderError_dispatches_def hook_dispatches_append)
  }
  {
    assume chain: "renderChain env inputOptions outputOptions ?base outputBundle s1
                     = (Inr rendered, s2)"
    have t2: "renderError_dispatches s2 = renderError_dispatches s1"
      using keeps_renderChain_renderError chain by (rule keepsD)
    obtain r3 s3 where rest:
      "then_do (\<lambda>s. call_generateBundle env outputOptions rendered isWrite
                      (assetsById env (world s)) s)
        (\<lambda>(bundle2, assets) s. (finaliseOpenAssets env ?afn assets bundle2, s)) s2 = (r3, s3)"
      by (cases "then_do (\<lambda>s. call_generateBundle env outputOptions rendered isWrite
                      (assetsById env (world s)) s)
        (\<lambda>(bundle2, assets) s. (finaliseOpenAssets env ?afn assets bundle2, s)) s2")
    have t3: "renderError_dispatches s3 = renderError_dispatches s2"
      using keeps_generateBundle_renderError rest by (rule keepsD)
    have g: "snd (generate env inputOptions rawOutputOptions isWrite s) = s3"
      unfolding generate_unfold [OF norm assets] generateChain_def settle_def
      by (simp add: then_do_def [of "catch_do _ _"] catch_do_def chain rest
          del: getprop.simps split: sum.splits)
    show "hook_dispatches ''renderError''
                   (trace (snd (generate env inputOptions rawOutputOptions isWrite s)))
                 = hook_dispatches ''renderError'' (trace s)"
      using t1 t2 t3 by (simp add: g renderError_dispatches_def)
  }
qed


lemma generate_renderError_sync:
  fixes env :: "('w, 'p) env"
  shows "(normalizeOutputOptions (mergeOptions_output env) inputOptions rawOutputOptions
            (1 < length (chunks s)) = Inl e
          \<longrightarrow> generate env inputOptions rawOutputOptions isWrite s = (Thrown e, s))
       \<and> (normalizeOutputOptions (mergeOptions_output env) inputOptions rawOutputOptions
            (1 < length (chunks s)) = Inr outputOptions
          \<and> in_world (finaliseAssets env
               (or_default (getprop (JObj outputOptions) ''assetFileNames'')
                  (JStr ''assets/[name]-[hash][extname]''))) s = (Inl e, s1)
          \<longrightarrow> generate env inputOptions rawOutputOptions isWrite s = (Thrown e, s1)
              \<and> trace s1 = trace s)"
  by (auto simp: generate_def Let_def in_world_def simp del: getprop.simps split: prod.splits)


text \<open>
  C4, as the code has it. A failure of the normalisation of the output options, or of
  the finalisation of the standing assets, is thrown by \<open>generate\<close> at the call site and
  no hook is dispatched. When the promise chain from the \<open>renderStart\<close> dispatch to the
  rendering of the chunks (the part in front of \<open>.catch\<close>) fails with \<open>err\<close>,
  \<open>renderError\<close> is dispatched exactly once, with \<open>err\<close>, and the promise rejects with
  \<open>err\<close> itself, or with the error of the \<open>renderError\<close> dispatch when that dispatch
  fails. When that part succeeds, the call dispatches no \<open>renderError\<close>, whatever
  \<open>generateBundle\<close> and the finalisation of the assets do afterwards.
\<close>


theorem generate_failure_renderError:
  fixes env :: "('w, 'p) env"
  shows "(normalizeOutputOptions (mergeOptions_output env) inputOptions rawOutputOptions
            (1 < length (chunks s)) = Inl e
          \<longrightarrow> generate env inputOptions rawOutputOptions isWrite s = (Thrown e, s))
       \<and> (normalizeOutputOptions (mergeOptions_output env) inputOptions rawOutputOptions
            (1 < length (chunks s)) = Inr outputOptions
          \<and> in_world (finaliseAssets env
               (or_default (getprop (JObj outputOptions) ''assetFileNames'')
                  (JStr ''assets/[name]-[hash][extname]''))) s = (Inl e, s1)
          \<longrightarrow> generate env inputOptions rawOutputOptions isWrite s = (Thrown e, s1)
              \<and> trace s1 = trace s)
       \<and> (normalizeOutputOptions (mergeOptions_output env) inputOptions rawOutputOptions
            (1 < length (chunks s)) = Inr outputOptions
          \<and> in_world (finaliseAssets env
               (or_default (getprop (JObj outputOptions) ''assetFileNames'')
                  (JStr ''assets/[name]-[hash][extname]''))) s = (Inr outputBundle, s1)
          \<and> renderChain env inputOptions outputOptions
               (commondir env (List.map_filter entryModule (chunks s1))) outputBundle s1
             = (Inl err, s2)
          \<longrightarrow> fst (generate env inputOptions rawOutputOptions isWrite s)
                = Rejected (case fst (hookParallel env ''renderError'' (ErrorArg err) (world s2)) of
                              Inl shadow \<Rightarrow> shadow | Inr u \<Rightarrow> err)
              \<and> hook_dispatches ''renderError''
                   (trace (snd (generate env inputOptions rawOutputOptions isWrite s)))
                 = hook_dispatches ''renderError'' (trace s) @ [ErrorArg err])
       \<and> (normalizeOutputOptions (mergeOptions_output env) inputOptions rawOutputOptions
            (1 < length (chunks s)) = Inr outputOptions
          \<and> in_world (finaliseAssets env
               (or_default (getprop (JObj outputOptions) ''assetFileNames'')
                  (JStr ''assets/[name]-[hash][extname]''))) s = (Inr outputBundle, s1)
          \<and> renderChain env inputOptions outputOptions
               (commondir env (List.map_filter entryModule (chunks s1))) outputBundle s1
             = (Inr rendered, s2)
          \<longrightarrow> hook_dispatches ''renderError''
                   (trace (snd (generate env inputOptions rawOutputOptions isWrite s)))
                 = hook_dispatches ''renderError'' (trace s))"
  using generate_renderError_sync [of env inputOptions rawOutputOptions s e isWrite outputOptions s1]
    generate_renderError_async [of env inputOptions rawOutputOptions s outputOptions outputBundle s1
      err s2 isWrite rendered]
  by blast

theorem generate_failure_renderError_witness:
  "fst (generate failing_render_env (b_inputOptions example_build) example_outputOptions False
          built_state)
     = Rejected (JSError None ''render failed'')
   \<and> hook_dispatches ''renderError''
        (trace (snd (generate failing_render_env (b_inputOptions example_build)
                       example_outputOptions False built_state)))
      = [ErrorArg (JSError None ''render failed'')]
   \<and> fst (generate failing_generateBundle_env (b_inputOptions example_build)
            example_outputOptions False built_state)
     = Rejected (JSError None ''generateBundle failed'')
   \<and> hook_dispatches ''renderError''
        (trace (snd (generate failing_generateBundle_env (b_inputOptions example_build)
                       example_outputOptions False built_state)))
      = []"
proof -
  let ?io = "b_inputOptions example_build"
  let ?out = "[(''format'', JStr ''es''), (''dir'', JStr ''out'')]"
  let ?afn = "or_default (getprop (JObj ?out) ''assetFileNames'')
                (JStr ''assets/[name]-[hash][extname]'')"
  have n1: "normalizeOutputOptions (mergeOptions_output failing_render_env) ?io
              example_outputOptions (1 < length (chunks built_state)) = Inr ?out"
    by code_simp
  have a1: "in_world (finaliseAssets failing_render_env ?afn) built_state = (Inr [], built_state)"
    by code_simp
  have c1: "renderChain failing_render_env ?io ?out
              (commondir failing_render_env (List.map_filter entryModule (chunks built_state)))
              [] built_state
            = (Inl (JSError None ''render failed''),
               snd (renderChain failing_render_env ?io ?out
                      (commondir failing_render_env
                         (List.map_filter entryModule (chunks built_state))) [] built_state))"
    by code_simp
  have h1: "fst (hookParallel failing_render_env ''renderError'' args w) = Inr ()" for args w
    by (simp add: failing_render_env_def example_env_def)
  have n2: "normalizeOutputOptions (mergeOptions_output failing_generateBundle_env) ?io
              example_outputOptions (1 < length (chunks built_state)) = Inr ?out"
    by code_simp
  have a2: "in_world (finaliseAssets failing_generateBundle_env ?afn) built_state
              = (Inr [], built_state)"
    by code_simp
  have c2: "renderChain failing_generateBundle_env ?io ?out
              (commondir failing_generateBundle_env
                 (List.map_filter entryModule (chunks built_state)))
              [] built_state
            = (Inr (case fst (renderChain failing_generateBundle_env ?io ?out
                                (commondir failing_generateBundle_env
                                   (List.map_filter entryModule (chunks built_state)))
                                [] built_state) of Inr b \<Rightarrow> b | Inl x \<Rightarrow> []),
               snd (renderChain failing_generateBundle_env ?io ?out
                      (commondir failing_generateBundle_env
                         (List.map_filter entryModule (chunks built_state))) [] built_state))"
    by code_simp
  have g2: "fst (generate failing_generateBundle_env ?io example_outputOptions False built_state)
              = Rejected (JSError None ''generateBundle failed'')"
    by code_simp
  have t0: "hook_dispatches ''renderError'' (trace built_state) = []"
    by code_simp
  from generate_failure_renderError
         [where env = failing_render_env and inputOptions = ?io
            and rawOutputOptions = example_outputOptions and s = built_state
            and outputOptions = ?out and outputBundle = "[]" and ?s1.0 = built_state
            and err = "JSError None ''render failed''" and isWrite = False
            and ?s2.0 = "snd (renderChain failing_render_env ?io ?out
                      (commondir failing_render_env
                         (List.map_filter entryModule (chunks built_state))) [] built_state)"]
       generate_failure_renderError
         [where env = failing_generateBundle_env and inputOptions = ?io
            and rawOutputOptions = example_outputOptions and s = built_state
            and outputOptions = ?out and outputBundle = "[]" and ?s1.0 = built_state
            and isWrite = False
            and rendered = "case fst (renderChain failing_generateBundle_env ?io ?out
                                (commondir failing_generateBundle_env
                                   (List.map_filter entryModule (chunks built_state)))
                                [] built_state) of Inr b \<Rightarrow> b | Inl x \<Rightarrow> []"
            and ?s2.0 = "snd (renderChain failing_generateBundle_env ?io ?out
                      (commondir failing_generateBundle_env
                         (List.map_filter entryModule (chunks built_state))) [] built_state)"]
  show ?thesis
    using n1 a1 c1 n2 a2 c2 g2 by (simp add: h1 t0 del: getprop.simps)
qed


text \<open>
  The claim as stated fails: \<open>generate\<close> with no \<open>format\<close> fails in the first step of
  the pipeline, before \<open>generateBundle\<close>, and \<open>renderError\<close> is not dispatched.
\<close>


theorem generate_option_failure_without_renderError:
  "fst (build_generate example_env example_build (JObj [(''dir'', JStr ''out'')]) built_state)
     = Thrown (JSError None format_message)
   \<and> hook_dispatches ''renderError''
        (trace (snd (build_generate example_env example_build (JObj [(''dir'', JStr ''out'')])
                       built_state)))
      = []"
  by code_simp

section \<open>The chunk post-optimizer runs once (C5)\<close>








lemma keeps_steps: "keeps optimizer_state p \<Longrightarrow> steps p"
  by (auto simp: keeps_def steps_def optimizer_step_def)



























end
